theory Spec2Isabelle
  imports Complex_Main "HOL-Library.Char_ord" "HOL-Library.List_Lexorder"
    "HOL-Library.Multiset"
begin

section \<open>Python strings and exceptions\<close>

text \<open>
  The exceptions the modelled code can raise. \<open>GitCommandError\<close> carries the
  \<open>stderr\<close> text of the failed git command, \<open>CalledProcessError\<close> the exit status
  of the external process.
\<close>

datatype error =
    GitCommandError string
  | ValueError
  | IndexError
  | TypeError
  | NoResultFound
  | MultipleResultsFound
  | CalledProcessError int
  | OtherError string

text \<open>\<open>s.startswith(p)\<close>.\<close>

fun startswith :: "string \<Rightarrow> string \<Rightarrow> bool" where
  "startswith s [] = True"
| "startswith [] (p # ps) = False"
| "startswith (c # cs) (p # ps) = (c = p \<and> startswith cs ps)"

section \<open>Confidence weights (UpstreamTracker/ParseData.py, insert\_patch)\<close>

text \<open>
  \<open>confidence_weight(a, b, c, d, e)\<close> is called with five positional numbers; the
  class itself (Objects/confidence\_weight.py) is not part of the available sources, so
  the vector is kept as the list of its five arguments, in order.
\<close>

definition confidence_weight :: "real \<Rightarrow> real \<Rightarrow> real \<Rightarrow> real \<Rightarrow> real \<Rightarrow> real list" where
  "confidence_weight a b c d e = [a, b, c, d, e]"

text \<open>
  The weight vector \<open>insert_patch\<close> builds for an indicator: none for
  \<open>"Upstream"\<close> (the patch is inserted without matching), one vector for the
  indicators starting with \<open>"Ub"\<close> or \<open>"De"\<close>, another for those starting with
  \<open>"SUSE"\<close>, and nothing happens for any other indicator. The branches are tried in
  the order of the \<open>if\<close>/\<open>elif\<close> chain.
\<close>

definition insert_patch_conf :: "string \<Rightarrow> real list option" where
  "insert_patch_conf indicator =
     (if indicator = ''Upstream'' then None
      else if startswith indicator ''Ub'' \<or> startswith indicator ''De''
        then Some (confidence_weight 0.2 0.49 0.1 0.2 0.01)
      else if startswith indicator ''SUSE''
        then Some (confidence_weight 0 1 0 0 0)
      else None)"

text \<open>
  Modelled from the spec: the confidence score, computed by the matcher
  (\<open>match.get_matching_patch\<close>, Objects/confidence\_weight.py), which is missing from the
  available sources. The spec (4.4) defines it as the dot product of the family's weight
  vector and the vector of five similarity signals. The numbers are real numbers here;
  the rounding of Python's floats is not part of this model.
\<close>

definition score :: "real list \<Rightarrow> real list \<Rightarrow> real" where
  "score w s = sum_list (map (\<lambda>(x, y). x * y) (zip w s))"

text \<open>Modelled from the spec (3, ConfidenceWeight): five components, each in [0,1],
  summing to 1.\<close>

definition valid_weight :: "real list \<Rightarrow> bool" where
  "valid_weight w = (length w = 5 \<and> list_all (\<lambda>x. 0 \<le> x \<and> x \<le> 1) w \<and> sum_list w = 1)"

text \<open>Modelled from the spec (4.4): five signals, each in [0,1].\<close>

definition valid_signal :: "real list \<Rightarrow> bool" where
  "valid_signal s = (length s = 5 \<and> list_all (\<lambda>x. 0 \<le> x \<and> x \<le> 1) s)"

text \<open>The weight vector that is one-hot at index \<open>k\<close>.\<close>

definition one_hot :: "nat \<Rightarrow> real list" where
  "one_hot k = (replicate 5 0)[k := 1]"

section \<open>Properties of the confidence score\<close>

lemma score_nonneg:
  "list_all (\<lambda>x. 0 \<le> x \<and> x \<le> 1) w \<Longrightarrow> list_all (\<lambda>x. 0 \<le> x \<and> x \<le> 1) s
   \<Longrightarrow> 0 \<le> score w s"
proof (induction w arbitrary: s)
  case Nil
  then show ?case by (simp add: score_def)
next
  case (Cons x w)
  show ?case
  proof (cases s)
    case Nil
    then show ?thesis by (simp add: score_def)
  next
    case (Cons y s')
    with Cons.prems have "0 \<le> x * y" and "0 \<le> score w s'"
      using Cons.IH [of s'] by simp_all
    with Cons show ?thesis by (simp add: score_def)
  qed
qed

lemma score_le_sum:
  "list_all (\<lambda>x. 0 \<le> x \<and> x \<le> 1) w \<Longrightarrow> list_all (\<lambda>x. 0 \<le> x \<and> x \<le> 1) s
   \<Longrightarrow> length s = length w \<Longrightarrow> score w s \<le> sum_list w"
proof (induction w arbitrary: s)
  case Nil
  then show ?case by (simp add: score_def)
next
  case (Cons x w)
  then obtain y s' where s: "s = y # s'"
    by (cases s) auto
  with Cons.prems have "x * y \<le> x * 1"
    by (intro mult_left_mono) simp_all
  moreover from Cons.prems s have "score w s' \<le> sum_list w"
    using Cons.IH [of s'] by simp
  ultimately show ?case
    using s by (simp add: score_def)
qed

lemma score_all_ones: "score w (replicate (length w) 1) = sum_list w"
  by (induction w) (simp_all add: score_def)

lemma score_one_hot:
  "k < 5 \<Longrightarrow> length s = 5 \<Longrightarrow> score (one_hot k) s = s ! k"
proof -
  assume k: "k < 5" and len: "length s = 5"
  from len obtain a b c d e where s: "s = [a, b, c, d, e]"
    by (auto simp: length_Suc_conv eval_nat_numeral)
  from k consider "k = 0" | "k = 1" | "k = 2" | "k = 3" | "k = 4"
    by linarith
  then show ?thesis
    by cases (simp_all add: s one_hot_def score_def eval_nat_numeral)
qed

lemma insert_patch_conf_valid:
  "insert_patch_conf indicator = Some w \<Longrightarrow> valid_weight w"
  by (auto simp: insert_patch_conf_def confidence_weight_def valid_weight_def
      split: if_splits)

text \<open>
  Claim C7. For a weight vector of five entries in [0,1] that sum to 1 and a signal
  vector in [0,1]^5, the score (the dot product) lies in [0,1]; the all-ones signal
  vector scores exactly 1 whatever the weights; a weight vector that is one-hot at index
  \<open>k\<close> gives exactly \<open>signal[k]\<close>; and every weight vector \<open>insert_patch\<close>
  constructs, (0.2, 0.49, 0.1, 0.2, 0.01) and (0, 1, 0, 0, 0), satisfies the
  precondition.
\<close>

theorem confidence_score_bounds:
  "(valid_weight w \<and> valid_signal s \<longrightarrow> 0 \<le> score w s \<and> score w s \<le> 1)
   \<and> (valid_weight w \<longrightarrow> score w (replicate 5 1) = 1)
   \<and> (k < 5 \<and> valid_signal s \<longrightarrow> score (one_hot k) s = s ! k)
   \<and> (insert_patch_conf indicator = Some w' \<longrightarrow> valid_weight w')
   \<and> insert_patch_conf ''Ubuntu'' = Some [0.2, 0.49, 0.1, 0.2, 0.01]
   \<and> insert_patch_conf ''SUSE'' = Some [0, 1, 0, 0, 0]"
proof (intro conjI impI)
  assume a: "valid_weight w \<and> valid_signal s"
  then show "0 \<le> score w s"
    by (simp add: valid_weight_def valid_signal_def score_nonneg)
  from a have "score w s \<le> sum_list w"
    by (intro score_le_sum) (simp_all add: valid_weight_def valid_signal_def)
  with a show "score w s \<le> 1"
    by (simp add: valid_weight_def)
next
  assume "valid_weight w"
  then show "score w (replicate 5 1) = 1"
    using score_all_ones [of w] by (simp add: valid_weight_def)
next
  assume "k < 5 \<and> valid_signal s"
  then show "score (one_hot k) s = s ! k"
    by (simp add: valid_signal_def score_one_hot)
next
  assume "insert_patch_conf indicator = Some w'"
  then show "valid_weight w'"
    by (rule insert_patch_conf_valid)
next
  show "insert_patch_conf ''Ubuntu'' = Some [0.2, 0.49, 0.1, 0.2, 0.01]"
    by (simp add: insert_patch_conf_def confidence_weight_def)
next
  show "insert_patch_conf ''SUSE'' = Some [0, 1, 0, 0, 0]"
    by (simp add: insert_patch_conf_def confidence_weight_def)
qed

theorem confidence_score_bounds_witness:
  "valid_weight [0.2, 0.49, 0.1, 0.2, 0.01]
   \<and> valid_signal [0.5, 0.25, 1, 0, 0.75]
   \<and> 0 \<le> score [0.2, 0.49, 0.1, 0.2, 0.01] [0.5, 0.25, 1, 0, 0.75]
   \<and> score [0.2, 0.49, 0.1, 0.2, 0.01] [0.5, 0.25, 1, 0, 0.75] \<le> 1
   \<and> score [0.2, 0.49, 0.1, 0.2, 0.01] (replicate 5 1) = 1
   \<and> score (one_hot 1) [0.5, 0.25, 1, 0, 0.75] = 0.25
   \<and> insert_patch_conf ''SUSE'' = Some (one_hot 1)
   \<and> valid_weight (one_hot 1)"
proof -
  have w: "valid_weight [0.2, 0.49, 0.1, 0.2, 0.01]"
    by (simp add: valid_weight_def)
  have s: "valid_signal [0.5, 0.25, 1, 0, 0.75]"
    by (simp add: valid_signal_def)
  have c: "insert_patch_conf ''SUSE'' = Some (one_hot 1)"
    by (simp add: insert_patch_conf_def confidence_weight_def one_hot_def eval_nat_numeral)
  have k: "(1::nat) < 5"
    by simp
  show ?thesis
    using w s c k
      confidence_score_bounds [of "[0.2, 0.49, 0.1, 0.2, 0.01]" "[0.5, 0.25, 1, 0, 0.75]" 1
        "''SUSE''" "one_hot 1"]
    by simp
qed

section \<open>Persisted tables (comma.database.model)\<close>

text \<open>
  The rows of the relational tables the modelled code reads and writes, with the columns
  it uses. \<open>symbols\<close> is a nullable text column: \<open>None\<close> is SQL's NULL.
\<close>

record PatchData =
  patchID :: nat
  commitID :: string
  commitTime :: int
  symbols :: "string option"

record MonitoringSubjects =
  monitoringSubjectID :: nat
  distroID :: string
  revision :: string

text \<open>
  A row of \<open>MonitoringSubjectsMissingPatches\<close> is the pair
  \<open>(monitoringSubjectID, patchID)\<close>. The table is a list of rows, so that a duplicate
  row would show.
\<close>

type_synonym missing_patches_table = "(nat \<times> nat) list"

section \<open>The missing-patch reconciler (comma/downstream/monitor.py, monitor\_subject)\<close>

text \<open>
  Phase 1, in a session of its own: the bulk delete of the subject's rows whose
  \<open>patchID\<close> is NOT IN \<open>missing_patch_ids\<close>.
\<close>

definition delete_no_longer_missing ::
  "nat \<Rightarrow> nat list \<Rightarrow> missing_patches_table \<Rightarrow> missing_patches_table" where
  "delete_no_longer_missing subject_id missing_patch_ids tbl =
     filter (\<lambda>r. \<not> (fst r = subject_id \<and> snd r \<notin> set missing_patch_ids)) tbl"

text \<open>
  Phase 2, in a second session: for each id of \<open>missing_patch_ids\<close>, in order, a row
  is added when the query for (\<open>subject_id\<close>, \<open>patch_id\<close>) finds none. The session
  factory is not part of the available sources, so whether a query flushes the rows
  added so far (\<open>autoflush\<close>, SQLAlchemy's default) is a parameter: \<open>tbl\<close> are the
  rows a query sees, \<open>pending\<close> the rows added and not yet flushed. Leaving the
  \<open>with\<close> block commits the pending rows.
\<close>

fun add_newly_missing ::
  "bool \<Rightarrow> nat \<Rightarrow> nat list \<Rightarrow> missing_patches_table \<Rightarrow> missing_patches_table
   \<Rightarrow> missing_patches_table" where
  "add_newly_missing autoflush subject_id [] tbl pending = tbl @ pending"
| "add_newly_missing autoflush subject_id (patch_id # ids) tbl pending =
     (let tbl' = (if autoflush then tbl @ pending else tbl);
          pending' = (if autoflush then [] else pending)
      in if (subject_id, patch_id) \<in> set tbl'
         then add_newly_missing autoflush subject_id ids tbl' pending'
         else add_newly_missing autoflush subject_id ids tbl'
                (pending' @ [(subject_id, patch_id)]))"

text \<open>The two phases, one after the other (lines 157 to 194).\<close>

definition reconcile ::
  "bool \<Rightarrow> nat \<Rightarrow> nat list \<Rightarrow> missing_patches_table \<Rightarrow> missing_patches_table" where
  "reconcile autoflush subject_id missing_patch_ids tbl =
     add_newly_missing autoflush subject_id missing_patch_ids
       (delete_no_longer_missing subject_id missing_patch_ids tbl) []"

text \<open>The patch ids persisted as missing for a subject.\<close>

definition persisted_missing_ids :: "nat \<Rightarrow> missing_patches_table \<Rightarrow> nat set" where
  "persisted_missing_ids subject_id tbl =
     set (map snd (filter (\<lambda>r. fst r = subject_id) tbl))"

text \<open>The rows of all the other subjects, in table order.\<close>

definition rows_of_others :: "nat \<Rightarrow> missing_patches_table \<Rightarrow> missing_patches_table" where
  "rows_of_others subject_id tbl = filter (\<lambda>r. fst r \<noteq> subject_id) tbl"

subsection \<open>Set equality and idempotence of the reconciler\<close>

lemma persisted_missing_ids_iff:
  "p \<in> persisted_missing_ids sid tbl \<longleftrightarrow> (sid, p) \<in> set tbl"
  by (force simp: persisted_missing_ids_def)

lemma set_delete_no_longer_missing:
  "set (delete_no_longer_missing sid ids tbl) =
     {r \<in> set tbl. fst r \<noteq> sid \<or> snd r \<in> set ids}"
  by (auto simp: delete_no_longer_missing_def)

lemma set_add_newly_missing:
  "set (add_newly_missing af sid ids tbl pending) =
     set tbl \<union> set pending \<union> {(sid, p) | p. p \<in> set ids}"
  by (induction ids arbitrary: tbl pending) (auto simp: Let_def)

lemma others_delete_no_longer_missing:
  "rows_of_others sid (delete_no_longer_missing sid ids tbl) = rows_of_others sid tbl"
  unfolding rows_of_others_def delete_no_longer_missing_def filter_filter
  by (rule filter_cong) auto

lemma others_add_newly_missing:
  "rows_of_others sid (add_newly_missing af sid ids tbl pending) =
     rows_of_others sid (tbl @ pending)"
proof (induction ids arbitrary: tbl pending)
  case Nil
  show ?case by simp
next
  case (Cons p ids)
  have "rows_of_others sid (xs @ [(sid, p)]) = rows_of_others sid xs" for xs
    by (simp add: rows_of_others_def)
  then show ?case
    by (simp add: Cons.IH Let_def) (simp add: rows_of_others_def)
qed

lemma add_newly_missing_present:
  "\<forall>p \<in> set ids. (sid, p) \<in> set tbl \<Longrightarrow> add_newly_missing af sid ids tbl [] = tbl"
  by (induction ids) (auto simp: Let_def)

lemma delete_no_longer_missing_id:
  "persisted_missing_ids sid tbl \<subseteq> set ids \<Longrightarrow> delete_no_longer_missing sid ids tbl = tbl"
  unfolding delete_no_longer_missing_def filter_id_conv
  by (auto simp: persisted_missing_ids_iff [symmetric])

lemma persisted_reconcile: "persisted_missing_ids sid (reconcile af sid ids tbl) = set ids"
  by (auto simp: persisted_missing_ids_iff reconcile_def set_add_newly_missing
      set_delete_no_longer_missing)

lemma others_reconcile: "rows_of_others sid (reconcile af sid ids tbl) = rows_of_others sid tbl"
  by (simp add: reconcile_def others_add_newly_missing others_delete_no_longer_missing)

lemma reconcile_fixpoint:
  "persisted_missing_ids sid tbl = set ids \<Longrightarrow> reconcile af sid ids tbl = tbl"
  by (simp add: reconcile_def delete_no_longer_missing_id add_newly_missing_present
      persisted_missing_ids_iff [symmetric])

text \<open>
  Claim C1. For every subject and every computed list \<open>S\<close> of missing patch ids, the
  two phases of the reconciler leave the persisted MissingPatchRecord id set of the
  subject exactly equal to \<open>S\<close>; and running the same reconcile again leaves the
  persisted table unchanged.
\<close>

theorem reconcile_set_equality_idempotent:
  "persisted_missing_ids subject_id (reconcile autoflush subject_id S tbl) = set S
   \<and> reconcile autoflush subject_id S (reconcile autoflush subject_id S tbl)
       = reconcile autoflush subject_id S tbl"
  using persisted_reconcile [of subject_id autoflush S tbl]
  by (simp add: reconcile_fixpoint)

theorem reconcile_set_equality_idempotent_witness:
  "reconcile True 1 [5, 7] [(1, 3), (2, 3), (1, 7)] = [(2, 3), (1, 7), (1, 5)]
   \<and> persisted_missing_ids 1 [(2, 3), (1, 7), (1, 5)] = set [5, 7]
   \<and> reconcile True 1 [5, 7] [(2, 3), (1, 7), (1, 5)] = [(2, 3), (1, 7), (1, 5)]"
proof -
  have r: "reconcile True 1 [5, 7] [(1, 3), (2, 3), (1, 7)] = [(2, 3), (1, 7), (1, 5)]"
    by (simp add: reconcile_def delete_no_longer_missing_def)
  show ?thesis
    using reconcile_set_equality_idempotent [of 1 True "[5, 7]" "[(1, 3), (2, 3), (1, 7)]"]
    unfolding r by simp
qed

section \<open>The version-control backend and the other collaborators of the monitor\<close>

text \<open>
  The arguments of the two \<open>repo.git.log\<close> calls of \<open>monitor_subject\<close>, one field
  per command-line option. \<open>Rev r\<close> is the single revision \<open>r\<close>,
  \<open>SymmetricDifference a b\<close> the three-dot range \<open>a...b\<close>. An empty \<open>pathspec\<close>
  stands for a command line without paths.
\<close>

datatype revision_range = Rev string | SymmetricDifference string string

record log_args =
  no_merges :: bool
  right_only :: bool
  cherry_pick :: bool
  pretty :: string
  since_date :: int
  revisions :: revision_range
  pathspec :: "string list"

text \<open>The keyword arguments of \<open>remote.fetch\<close>: \<open>depth=1\<close>,
  \<open>shallow_since=config.since\<close>, or neither.\<close>

datatype fetch_opts = Depth nat | ShallowSince int | Unrestricted

text \<open>
  What \<open>monitor_downstream\<close> and \<open>monitor_subject\<close> call and do not define: GitPython
  (\<open>git_log\<close> returns the lines of the command's output, \<open>git_fetch\<close> the commit
  times of the returned FetchInfo list), \<open>process_commits\<close> (comma.upstream.parser),
  \<open>patch_matches\<close> (comma.downstream.matcher), \<open>get_tracked_paths\<close>, the configured
  window start \<open>config.since\<close> (as the time stamp \<open>approxidate\<close> resolves it to) and
  the session's autoflush setting. \<open>'g\<close> is the state of the local git repository,
  \<open>'d\<close> the type of the parsed downstream patches. Every call that can raise returns
  a sum, \<open>Inl\<close> the exception.
\<close>

record ('g, 'd) backend =
  git_log :: "log_args \<Rightarrow> 'g \<Rightarrow> error + string list"
  git_fetch :: "string \<Rightarrow> string \<Rightarrow> fetch_opts \<Rightarrow> 'g \<Rightarrow> error + (int list \<times> 'g)"
  has_remote :: "string \<Rightarrow> 'g \<Rightarrow> bool"
  has_reference :: "string \<Rightarrow> 'g \<Rightarrow> bool"
  create_tag :: "string \<Rightarrow> 'g \<Rightarrow> 'g"
  process_commits :: "string \<Rightarrow> int \<Rightarrow> 'g \<Rightarrow> error + 'd"
  patch_matches :: "'d \<Rightarrow> PatchData \<Rightarrow> bool"
  get_tracked_paths :: "string list"
  since :: int
  autoflush :: bool

section \<open>The cherry-pick detector (monitor\_subject, lines 94 to 117)\<close>

text \<open>The arguments of the first log call: upstream commits on tracked paths within
  the window.\<close>

definition upstream_log_args :: "('g, 'd) backend \<Rightarrow> log_args" where
  "upstream_log_args env =
     \<lparr>no_merges = True, right_only = False, cherry_pick = False, pretty = ''format:%H'',
      since_date = since env, revisions = Rev ''origin/master'',
      pathspec = get_tracked_paths env\<rparr>"

text \<open>The arguments of the second log call: the missing cherries, for all paths.\<close>

definition cherry_log_args :: "('g, 'd) backend \<Rightarrow> string \<Rightarrow> log_args" where
  "cherry_log_args env reference =
     \<lparr>no_merges = True, right_only = True, cherry_pick = True, pretty = ''format:%H'',
      since_date = since env, revisions = SymmetricDifference reference ''origin/master'',
      pathspec = []\<rparr>"

text \<open>\<open>missing_cherries\<close> after \<open>missing_cherries &= upstream_commits\<close>.\<close>

definition cherry_pick_candidates ::
  "('g, 'd) backend \<Rightarrow> 'g \<Rightarrow> string \<Rightarrow> error + string set" where
  "cherry_pick_candidates env g reference =
     (case git_log env (upstream_log_args env) g of
        Inl e \<Rightarrow> Inl e
      | Inr upstream_commits \<Rightarrow>
          (case git_log env (cherry_log_args env reference) g of
             Inl e \<Rightarrow> Inl e
           | Inr missing_cherries \<Rightarrow> Inr (set missing_cherries \<inter> set upstream_commits)))"

section \<open>monitor\_subject\<close>

text \<open>Python's \<open>min\<close> of a sequence: ValueError when it is empty.\<close>

fun py_min :: "int list \<Rightarrow> error + int" where
  "py_min [] = Inl ValueError"
| "py_min (x # xs) = Inr (fold min xs x)"

text \<open>
  \<open>monitor_subject(monitoring_subject, repo, reference)\<close>. The result is the exception
  raised, if any, and the table of missing patches as the run leaves it: each database
  session commits when its \<open>with\<close> block is left, so an exception leaves what the
  sessions before it committed. The PatchData table is only read.
\<close>

definition monitor_subject ::
  "('g, 'd) backend \<Rightarrow> 'g \<Rightarrow> PatchData list \<Rightarrow> MonitoringSubjects \<Rightarrow> string option
   \<Rightarrow> missing_patches_table \<Rightarrow> error option \<times> missing_patches_table" where
  "monitor_subject env g patch_data monitoring_subject reference_arg tbl =
     (let reference = (case reference_arg of None \<Rightarrow> revision monitoring_subject
                       | Some r \<Rightarrow> r)
      in case cherry_pick_candidates env g reference of
           Inl e \<Rightarrow> (Some e, tbl)
         | Inr missing_cherries \<Rightarrow>
             (let patches = sort_key commitTime
                    (filter (\<lambda>p. commitID p \<in> missing_cherries) patch_data)
              in case py_min (map commitTime patches) of
                   Inl e \<Rightarrow> (Some e, tbl)
                 | Inr earliest_commit_date \<Rightarrow>
                     (case process_commits env reference earliest_commit_date g of
                        Inl e \<Rightarrow> (Some e, tbl)
                      | Inr downstream_patches \<Rightarrow>
                          (let missing_patches =
                                 filter (\<lambda>p. \<not> patch_matches env downstream_patches p) patches;
                               missing_patch_ids = map patchID missing_patches;
                               subject_id = monitoringSubjectID monitoring_subject
                           in (None, reconcile (autoflush env) subject_id missing_patch_ids tbl)))))"

section \<open>monitor\_downstream (lines 216 to 287)\<close>

text \<open>\<open>needle in haystack\<close> for strings.\<close>

fun substring_in :: "string \<Rightarrow> string \<Rightarrow> bool" where
  "substring_in needle [] = (needle = [])"
| "substring_in needle (c # cs) = (startswith (c # cs) needle \<or> substring_in needle cs)"

text \<open>\<open>s.split(sep, 1)[-1]\<close>: what follows the first separator, or all of \<open>s\<close>
  when it has none.\<close>

definition split1_last :: "char \<Rightarrow> string \<Rightarrow> string" where
  "split1_last sep s = (case dropWhile (\<lambda>c. c \<noteq> sep) s of [] \<Rightarrow> s | _ # rest \<Rightarrow> rest)"

text \<open>\<open>(local_ref, remote_ref)\<close> of a subject (lines 227 to 232).\<close>

definition local_and_remote_ref :: "MonitoringSubjects \<Rightarrow> string \<times> string" where
  "local_and_remote_ref subject =
     (if startswith (revision subject) (distroID subject @ ''/'')
      then (revision subject, split1_last CHR ''/'' (revision subject))
      else (distroID subject @ ''/'' @ revision subject, revision subject))"

text \<open>
  The \<open>try\<close> block of lines 253 to 268: the fetch with \<open>shallow_since\<close>; a
  GitCommandError whose \<open>stderr\<close> contains the server's message is caught and the fetch
  is retried without the option; any other GitCommandError is raised again, and an
  exception of another class is not caught at all.
\<close>

definition fetch_shallow_since ::
  "('g, 'd) backend \<Rightarrow> string \<Rightarrow> string \<Rightarrow> 'g \<Rightarrow> error + 'g" where
  "fetch_shallow_since env remote remote_ref g =
     (case git_fetch env remote remote_ref (ShallowSince (since env)) g of
        Inr (fetch_info, g') \<Rightarrow> Inr g'
      | Inl e \<Rightarrow>
          (case e of
             GitCommandError stderr \<Rightarrow>
               if substring_in ''Server does not support --shallow-since'' stderr
               then (case git_fetch env remote remote_ref Unrestricted g of
                       Inr (fetch_info, g') \<Rightarrow> Inr g'
                     | Inl e' \<Rightarrow> Inl e')
               else Inl e
           | _ \<Rightarrow> Inl e))"

text \<open>
  Lines 239 to 275: the fetch at depth 1, then the wider fetch when the commit of the
  last FetchInfo is inside the window. \<open>fetch_info[-1]\<close> raises IndexError on an empty
  list.
\<close>

definition fetch_revision ::
  "('g, 'd) backend \<Rightarrow> string \<Rightarrow> string \<Rightarrow> 'g \<Rightarrow> error + 'g" where
  "fetch_revision env remote remote_ref g =
     (case git_fetch env remote remote_ref (Depth 1) g of
        Inl e \<Rightarrow> Inl e
      | Inr (fetch_info, g1) \<Rightarrow>
          if fetch_info = [] then Inl IndexError
          else if last fetch_info \<ge> since env
          then fetch_shallow_since env remote remote_ref g1
          else Inr g1)"

text \<open>
  One iteration of the loop over the subjects. \<open>repo.remote(name)\<close> raises ValueError
  for a remote that does not exist. The result is the new state of the repository, or
  the exception that leaves the loop, and the table of missing patches.
\<close>

definition process_subject ::
  "('g, 'd) backend \<Rightarrow> PatchData list \<Rightarrow> MonitoringSubjects \<Rightarrow> 'g \<Rightarrow> missing_patches_table
   \<Rightarrow> (error + 'g) \<times> missing_patches_table" where
  "process_subject env patch_data subject g tbl =
     (if startswith (distroID subject) ''Debian'' then (Inr g, tbl)
      else if \<not> has_remote env (distroID subject) g then (Inl ValueError, tbl)
      else
        (let (local_ref, remote_ref) = local_and_remote_ref subject
         in case fetch_revision env (distroID subject) remote_ref g of
              Inl e \<Rightarrow> (Inl e, tbl)
            | Inr g1 \<Rightarrow>
                (let g2 = (if has_reference env local_ref g1 then g1
                           else create_tag env local_ref g1)
                 in case monitor_subject env g2 patch_data subject (Some local_ref) tbl of
                      (Some e, tbl') \<Rightarrow> (Inl e, tbl')
                    | (None, tbl') \<Rightarrow> (Inr g2, tbl'))))"

text \<open>
  The loop \<open>for subject in session.query(MonitoringSubjects).all()\<close>. Nothing in the
  loop catches an exception of an iteration, so the first one ends the loop.
\<close>

fun monitor_downstream ::
  "('g, 'd) backend \<Rightarrow> PatchData list \<Rightarrow> MonitoringSubjects list \<Rightarrow> 'g \<Rightarrow> missing_patches_table
   \<Rightarrow> (error + 'g) \<times> missing_patches_table" where
  "monitor_downstream env patch_data [] g tbl = (Inr g, tbl)"
| "monitor_downstream env patch_data (subject # subjects) g tbl =
     (case process_subject env patch_data subject g tbl of
        (Inl e, tbl') \<Rightarrow> (Inl e, tbl')
      | (Inr g', tbl') \<Rightarrow> monitor_downstream env patch_data subjects g' tbl')"

subsection \<open>A concrete run\<close>

text \<open>
  A backend for the examples below: upstream has the commits \<open>c1\<close> and \<open>c2\<close> on
  tracked paths; the reference \<open>Ubuntu/v2\<close> misses \<open>c1\<close>, every other reference
  misses nothing; every fetch from the remote \<open>SUSE\<close> fails with a network error;
  no downstream patch matches.
\<close>

definition example_backend :: "(unit, unit) backend" where
  "example_backend =
     \<lparr>git_log = (\<lambda>args g. case revisions args of
                    Rev r \<Rightarrow> Inr [''c1'', ''c2'']
                  | SymmetricDifference a b \<Rightarrow>
                      if a = ''Ubuntu/v2'' then Inr [''c1''] else Inr []),
      git_fetch = (\<lambda>remote remote_ref opts g.
                    if remote = ''SUSE'' then Inl (GitCommandError ''Connection timed out'')
                    else Inr ([100], g)),
      has_remote = (\<lambda>name g. True),
      has_reference = (\<lambda>name g. False),
      create_tag = (\<lambda>name g. g),
      process_commits = (\<lambda>reference since_date g. Inr ()),
      patch_matches = (\<lambda>downstream_patches p. False),
      get_tracked_paths = [''drivers/hv''],
      since = 50,
      autoflush = True\<rparr>"

text \<open>A server that rejects \<open>--shallow-since\<close> and serves every other fetch.\<close>

definition ado_backend :: "(unit, unit) backend" where
  "ado_backend =
     example_backend\<lparr>git_fetch := (\<lambda>remote remote_ref opts g.
        case opts of
          ShallowSince d \<Rightarrow>
            Inl (GitCommandError ''fatal: Server does not support --shallow-since'')
        | _ \<Rightarrow> Inr ([100], g))\<rparr>"

definition example_patch_data :: "PatchData list" where
  "example_patch_data =
     [\<lparr>patchID = 10, commitID = ''c1'', commitTime = 60, symbols = None\<rparr>]"

definition suse_subject :: MonitoringSubjects where
  "suse_subject = \<lparr>monitoringSubjectID = 1, distroID = ''SUSE'', revision = ''v1''\<rparr>"

definition ubuntu_subject :: MonitoringSubjects where
  "ubuntu_subject = \<lparr>monitoringSubjectID = 2, distroID = ''Ubuntu'', revision = ''v2''\<rparr>"

definition ubuntu_subject_v3 :: MonitoringSubjects where
  "ubuntu_subject_v3 = \<lparr>monitoringSubjectID = 3, distroID = ''Ubuntu'', revision = ''v3''\<rparr>"

lemma example_run_ubuntu:
  "monitor_downstream example_backend example_patch_data [ubuntu_subject] () [(2, 11)]
     = (Inr (), [(2, 10)])"
  by (simp add: example_backend_def example_patch_data_def ubuntu_subject_def
      process_subject_def local_and_remote_ref_def fetch_revision_def fetch_shallow_since_def
      monitor_subject_def cherry_pick_candidates_def upstream_log_args_def cherry_log_args_def
      reconcile_def delete_no_longer_missing_def)

lemma example_run_suse_first:
  "monitor_downstream example_backend example_patch_data [suse_subject, ubuntu_subject] ()
     [(2, 11)] = (Inl (GitCommandError ''Connection timed out''), [(2, 11)])"
  by (simp add: example_backend_def example_patch_data_def suse_subject_def
      process_subject_def local_and_remote_ref_def fetch_revision_def)

subsection \<open>What an exception leaves behind\<close>

lemma monitor_subject_frame:
  "monitor_subject env g pd s r tbl = (res, tbl') \<Longrightarrow>
   rows_of_others (monitoringSubjectID s) tbl' = rows_of_others (monitoringSubjectID s) tbl"
  by (auto simp: monitor_subject_def Let_def others_reconcile split: sum.splits)

lemma process_subject_frame:
  "process_subject env pd s g tbl = (res, tbl') \<Longrightarrow>
   rows_of_others (monitoringSubjectID s) tbl' = rows_of_others (monitoringSubjectID s) tbl"
  by (auto simp: process_subject_def Let_def
      split: if_splits sum.splits prod.splits option.splits dest: monitor_subject_frame)

lemma monitor_downstream_append:
  "monitor_downstream env pd xs g tbl = (Inr g1, tbl1) \<Longrightarrow>
   monitor_downstream env pd (xs @ ys) g tbl = monitor_downstream env pd ys g1 tbl1"
  by (induction xs arbitrary: g tbl) (auto split: prod.splits sum.splits)

lemma process_subject_fetch_failure:
  "\<not> startswith (distroID s) ''Debian'' \<Longrightarrow> has_remote env (distroID s) g \<Longrightarrow>
   fetch_revision env (distroID s) (snd (local_and_remote_ref s)) g = Inl e \<Longrightarrow>
   process_subject env pd s g tbl = (Inl e, tbl)"
  by (auto simp: process_subject_def split: prod.splits)

text \<open>
  Claim C3, as stated, asks that after a subject's fetch error the remaining subjects
  are still processed. In the example the fetch for the first subject fails: the run
  ends with that error and the table still holds the stale row (2, 11) of the second
  subject, which a run over the second subject alone replaces by (2, 10).
\<close>

theorem failure_isolation_counterexample:
  "monitor_downstream example_backend example_patch_data [suse_subject, ubuntu_subject] ()
     [(2, 11)] = (Inl (GitCommandError ''Connection timed out''), [(2, 11)])
   \<and> monitor_downstream example_backend example_patch_data [ubuntu_subject] () [(2, 11)]
     = (Inr (), [(2, 10)])"
  using example_run_suse_first example_run_ubuntu by simp

text \<open>
  Claim C3, amended. When the fetch for a subject fails, the exception leaves
  \<open>monitor_downstream\<close>: the run ends with that error, whatever subjects remain, none
  of them is processed, and the table of missing patches is exactly as the subjects
  processed before the failing one left it.
\<close>

theorem fetch_failure_aborts_run:
  assumes "monitor_downstream env pd earlier g tbl = (Inr g1, tbl1)"
    and "\<not> startswith (distroID subject) ''Debian''"
    and "has_remote env (distroID subject) g1"
    and "fetch_revision env (distroID subject) (snd (local_and_remote_ref subject)) g1 = Inl e"
  shows "monitor_downstream env pd (earlier @ subject # later) g tbl = (Inl e, tbl1)"
  using assms
  by (simp add: monitor_downstream_append process_subject_fetch_failure)

theorem fetch_failure_aborts_run_witness:
  "monitor_downstream example_backend example_patch_data
     [ubuntu_subject, suse_subject, ubuntu_subject_v3] () [(2, 11)]
   = (Inl (GitCommandError ''Connection timed out''), [(2, 10)])"
proof -
  have f: "fetch_revision example_backend (distroID suse_subject)
             (snd (local_and_remote_ref suse_subject)) ()
           = Inl (GitCommandError ''Connection timed out'')"
    by (simp add: fetch_revision_def example_backend_def suse_subject_def)
  have d: "\<not> startswith (distroID suse_subject) ''Debian''"
    by (simp add: suse_subject_def)
  have r: "has_remote example_backend (distroID suse_subject) ()"
    by (simp add: example_backend_def)
  show ?thesis
    using fetch_failure_aborts_run [OF example_run_ubuntu d r f, of "[ubuntu_subject_v3]"]
    by simp
qed

subsection \<open>The fallback of the shallow-since fetch\<close>

text \<open>
  Claim C6. If the shallow-since fetch fails with a GitCommandError whose \<open>stderr\<close>
  says that the server does not support \<open>--shallow-since\<close>, that error is not
  surfaced: the outcome is the outcome of the fetch without the option alone, so the
  step succeeds when that fetch does. Every other failure of the shallow-since fetch, a
  GitCommandError with another message or an exception of another class, is the outcome
  of the step, unchanged.
\<close>

theorem shallow_since_fallback:
  "(git_fetch env remote remote_ref (ShallowSince (since env)) g = Inl (GitCommandError stderr)
      \<and> substring_in ''Server does not support --shallow-since'' stderr
    \<longrightarrow> fetch_shallow_since env remote remote_ref g =
          map_sum id snd (git_fetch env remote remote_ref Unrestricted g)
        \<and> (git_fetch env remote remote_ref Unrestricted g = Inr (fetch_info, g')
            \<longrightarrow> fetch_shallow_since env remote remote_ref g = Inr g'))
   \<and> (git_fetch env remote remote_ref (ShallowSince (since env)) g = Inl e
      \<and> (\<forall>stderr'. e = GitCommandError stderr'
            \<longrightarrow> \<not> substring_in ''Server does not support --shallow-since'' stderr')
    \<longrightarrow> fetch_shallow_since env remote remote_ref g = Inl e)"
  by (auto simp: fetch_shallow_since_def split: sum.splits error.splits)

theorem shallow_since_fallback_witness:
  "git_fetch ado_backend ''ADO'' ''main'' (ShallowSince (since ado_backend)) ()
     = Inl (GitCommandError ''fatal: Server does not support --shallow-since'')
   \<and> fetch_shallow_since ado_backend ''ADO'' ''main'' () = Inr ()
   \<and> git_fetch example_backend ''SUSE'' ''v1'' (ShallowSince (since example_backend)) ()
     = Inl (GitCommandError ''Connection timed out'')
   \<and> fetch_shallow_since example_backend ''SUSE'' ''v1'' ()
     = Inl (GitCommandError ''Connection timed out'')"
proof -
  have a: "git_fetch ado_backend ''ADO'' ''main'' (ShallowSince (since ado_backend)) ()
             = Inl (GitCommandError ''fatal: Server does not support --shallow-since'')"
    by (simp add: ado_backend_def)
  have m: "substring_in ''Server does not support --shallow-since''
             ''fatal: Server does not support --shallow-since''"
    by simp
  have u: "git_fetch ado_backend ''ADO'' ''main'' Unrestricted () = Inr ([100], ())"
    by (simp add: ado_backend_def)
  have b: "git_fetch example_backend ''SUSE'' ''v1'' (ShallowSince (since example_backend)) ()
             = Inl (GitCommandError ''Connection timed out'')"
    by (simp add: example_backend_def)
  have n: "\<forall>stderr'. GitCommandError ''Connection timed out'' = GitCommandError stderr'
             \<longrightarrow> \<not> substring_in ''Server does not support --shallow-since'' stderr'"
    by simp
  have 1: "fetch_shallow_since ado_backend ''ADO'' ''main'' () = Inr ()"
    using a m u
      shallow_since_fallback [of ado_backend "''ADO''" "''main''" "()"
        "''fatal: Server does not support --shallow-since''" "[100]" "()"]
    by blast
  have 2: "fetch_shallow_since example_backend ''SUSE'' ''v1'' ()
             = Inl (GitCommandError ''Connection timed out'')"
    using b n
      shallow_since_fallback [of example_backend "''SUSE''" "''v1''" "()" _ _ _
        "GitCommandError ''Connection timed out''"]
    by blast
  show ?thesis
    using a b 1 2 by simp
qed

subsection \<open>An empty candidate set\<close>

text \<open>
  Claim C9. If the cherry-pick detection yields no candidate, or no persisted PatchData
  row has a candidate's commit id, \<open>monitor_subject\<close> raises ValueError (\<open>min\<close> of an
  empty sequence) before either reconcile phase: the table of missing patches is left
  as it was, so no persisted record of the subject is deleted, although the reconcile
  phases run on the empty list of missing ids would have left the subject without any.
\<close>

theorem empty_candidates_raise_before_reconcile:
  "cherry_pick_candidates env g
     (case reference_arg of None \<Rightarrow> revision subject | Some r \<Rightarrow> r) = Inr missing_cherries \<Longrightarrow>
   filter (\<lambda>p. commitID p \<in> missing_cherries) patch_data = [] \<Longrightarrow>
   monitor_subject env g patch_data subject reference_arg tbl = (Some ValueError, tbl)
   \<and> persisted_missing_ids (monitoringSubjectID subject)
        (reconcile (autoflush env) (monitoringSubjectID subject) [] tbl) = {}"
  by (simp add: monitor_subject_def persisted_reconcile)

theorem empty_candidates_raise_before_reconcile_witness:
  "cherry_pick_candidates example_backend () ''Ubuntu/v3'' = Inr {}
   \<and> monitor_subject example_backend () example_patch_data ubuntu_subject_v3
       (Some ''Ubuntu/v3'') [(3, 11)] = (Some ValueError, [(3, 11)])
   \<and> persisted_missing_ids 3 [(3, 11)] = {11}"
proof -
  have c: "cherry_pick_candidates example_backend () ''Ubuntu/v3'' = Inr {}"
    by (simp add: cherry_pick_candidates_def example_backend_def upstream_log_args_def
        cherry_log_args_def)
  have c': "cherry_pick_candidates example_backend ()
              (case Some ''Ubuntu/v3'' of None \<Rightarrow> revision ubuntu_subject_v3 | Some r \<Rightarrow> r)
            = Inr {}"
    using c by simp
  have f: "filter (\<lambda>p. commitID p \<in> {}) example_patch_data = []"
    by simp
  have p: "persisted_missing_ids 3 [(3, 11)] = {11}"
    by (simp add: persisted_missing_ids_def)
  show ?thesis
    using c p
      empty_candidates_raise_before_reconcile [OF c' f, of "[(3, 11)]"]
    by simp
qed

section \<open>The log operation of the version-control backend\<close>

text \<open>
  Modelled from the spec: git itself is an external collaborator, and only its \<open>log\<close>
  interface is described (spec 6: \<open>log(paths?, since?, revision_range, flags:
  no-merges/cherry-pick/right-only)\<close>, and 4.3 for what the flags select). A commit
  carries its identity, its commit time, the paths it changes, the identity of its
  patch content, and its parents, hence its whole history. History simplification and
  the order of the output are not part of this model.
\<close>

datatype commit =
  Commit (hexsha: string) (committed_date: int) (changed_paths: "string list")
    (patch_id: string) (parents: "commit list")

text \<open>Modelled from the spec: the commits reachable from a commit, itself included.\<close>

fun ancestry :: "commit \<Rightarrow> commit list" where
  "ancestry (Commit h d f p ps) = Commit h d f p ps # concat (map ancestry ps)"

text \<open>The local repository, as far as \<open>log\<close> reads it: the reference names and the
  commits they point to.\<close>

type_synonym git_repo = "(string \<times> commit) list"

text \<open>Modelled from the spec: resolving a reference name; git fails on an unknown
  one.\<close>

definition rev_parse :: "git_repo \<Rightarrow> string \<Rightarrow> error + commit" where
  "rev_parse repo name =
     (case map_of repo name of
        None \<Rightarrow> Inl (GitCommandError ''fatal: bad revision'')
      | Some c \<Rightarrow> Inr c)"

definition reachable_ids :: "commit \<Rightarrow> string set" where
  "reachable_ids tip = set (map hexsha (ancestry tip))"

text \<open>Modelled from the spec: a path restriction names a file or a directory above
  it.\<close>

definition path_under :: "string \<Rightarrow> string \<Rightarrow> bool" where
  "path_under spec path = (path = spec \<or> startswith path (spec @ ''/''))"

definition touches :: "string list \<Rightarrow> commit \<Rightarrow> bool" where
  "touches specs c =
     list_ex (\<lambda>path. list_ex (\<lambda>spec. path_under spec path) specs) (changed_paths c)"

definition is_merge :: "commit \<Rightarrow> bool" where
  "is_merge c = (length (parents c) > 1)"

text \<open>Modelled from the spec: the commit filters of \<open>log\<close> (\<open>--no-merges\<close>,
  \<open>--since\<close>, and the paths after \<open>--\<close>, none meaning no restriction).\<close>

definition log_selects :: "log_args \<Rightarrow> commit \<Rightarrow> bool" where
  "log_selects args c =
     ((if no_merges args then \<not> is_merge c else True)
      \<and> since_date args \<le> committed_date c
      \<and> (if pathspec args = [] then True else touches (pathspec args) c))"

text \<open>
  Modelled from the spec: \<open>log\<close>. For a three-dot range \<open>a...b\<close> the left side are the
  commits reachable from \<open>a\<close> only, the right side those reachable from \<open>b\<close> only;
  \<open>--cherry-pick\<close> omits a commit whose patch content equals that of a commit of the
  other side; \<open>--right-only\<close> keeps the right side. The output is one identity per
  line (\<open>--pretty=format:%H\<close>).
\<close>

definition git_log_model :: "log_args \<Rightarrow> git_repo \<Rightarrow> error + string list" where
  "git_log_model args repo =
     (case revisions args of
        Rev r \<Rightarrow>
          (case rev_parse repo r of
             Inl e \<Rightarrow> Inl e
           | Inr tip \<Rightarrow> Inr (remdups (map hexsha (filter (log_selects args) (ancestry tip)))))
      | SymmetricDifference a b \<Rightarrow>
          (case rev_parse repo a of
             Inl e \<Rightarrow> Inl e
           | Inr left_tip \<Rightarrow>
               (case rev_parse repo b of
                  Inl e \<Rightarrow> Inl e
                | Inr right_tip \<Rightarrow>
                    (let left = filter (\<lambda>c. hexsha c \<notin> reachable_ids right_tip)
                                  (ancestry left_tip);
                         right = filter (\<lambda>c. hexsha c \<notin> reachable_ids left_tip)
                                   (ancestry right_tip);
                         left' = (if cherry_pick args
                                  then filter (\<lambda>c. patch_id c \<notin> set (map patch_id right)) left
                                  else left);
                         right' = (if cherry_pick args
                                   then filter (\<lambda>c. patch_id c \<notin> set (map patch_id left)) right
                                   else right);
                         shown = (if right_only args then right' else left' @ right')
                     in Inr (remdups (map hexsha (filter (log_selects args) shown)))))))"

subsection \<open>The two sets of the cherry-pick detector, in the words of the spec\<close>

text \<open>
  \<open>U\<close>: the identities of the non-merge commits reachable from the upstream head,
  restricted to the tracked paths and to commit time at or after the window start.
\<close>

definition upstream_in_window :: "commit \<Rightarrow> string list \<Rightarrow> int \<Rightarrow> string set" where
  "upstream_in_window head tracked window_start =
     set (map hexsha
       (filter (\<lambda>c. \<not> is_merge c \<and> touches tracked c \<and> window_start \<le> committed_date c)
          (ancestry head)))"

text \<open>
  \<open>M\<close>: the identities of the commits reachable only from the upstream side of the
  three-dot comparison of the subject's reference and the upstream head, without those
  whose patch content a commit of the subject's side has, restricted to the same window,
  with no restriction on paths (and none on merges).
\<close>

definition upstream_only_cherries :: "commit \<Rightarrow> commit \<Rightarrow> int \<Rightarrow> string set" where
  "upstream_only_cherries subject_tip head window_start =
     set (map hexsha
       (filter (\<lambda>c. hexsha c \<notin> reachable_ids subject_tip
            \<and> \<not> list_ex (\<lambda>d. hexsha d \<notin> reachable_ids head \<and> patch_id d = patch_id c)
                 (ancestry subject_tip)
            \<and> window_start \<le> committed_date c)
          (ancestry head)))"

subsection \<open>A small history\<close>

text \<open>
  Upstream is \<open>b0 - x1 - y1 - z1\<close>; the subject's reference is \<open>b0 - d1\<close>, where
  \<open>d1\<close> is a cherry-pick of \<open>x1\<close>. \<open>x1\<close> and \<open>y1\<close> change tracked paths, \<open>z1\<close>
  does not, and \<open>b0\<close> is older than the window.
\<close>

definition c_base :: commit where
  "c_base = Commit ''b0'' 10 [''README''] ''p0'' []"

definition c_x :: commit where
  "c_x = Commit ''x1'' 60 [''drivers/hv/a.c''] ''px'' [c_base]"

definition c_y :: commit where
  "c_y = Commit ''y1'' 70 [''drivers/hv/b.c''] ''py'' [c_x]"

definition c_z :: commit where
  "c_z = Commit ''z1'' 80 [''net/core.c''] ''pz'' [c_y]"

definition c_d :: commit where
  "c_d = Commit ''d1'' 65 [''drivers/hv/a.c''] ''px'' [c_base]"

definition example_repo :: git_repo where
  "example_repo = [(''origin/master'', c_z), (''Ubuntu/v2'', c_d)]"

definition git_backend :: "(git_repo, unit) backend" where
  "git_backend =
     \<lparr>git_log = git_log_model,
      git_fetch = (\<lambda>remote remote_ref opts g. Inr ([100], g)),
      has_remote = (\<lambda>name g. True),
      has_reference = (\<lambda>name g. True),
      create_tag = (\<lambda>name g. g),
      process_commits = (\<lambda>reference since_date g. Inr ()),
      patch_matches = (\<lambda>downstream_patches p. False),
      get_tracked_paths = [''drivers/hv''],
      since = 50,
      autoflush = True\<rparr>"

subsection \<open>The detector computes the intersection\<close>

lemma log_upstream:
  assumes "map_of repo ''origin/master'' = Some head" and "tracked \<noteq> []"
  shows "\<exists>us. git_log_model \<lparr>no_merges = True, right_only = False, cherry_pick = False,
            pretty = fmt, since_date = w, revisions = Rev ''origin/master'',
            pathspec = tracked\<rparr> repo = Inr us
          \<and> set us = upstream_in_window head tracked w"
  using assms
  by (auto simp: git_log_model_def rev_parse_def log_selects_def upstream_in_window_def)

lemma log_cherries:
  assumes "map_of repo ''origin/master'' = Some head"
    and "map_of repo reference = Some subject_tip"
  shows "\<exists>ms. git_log_model \<lparr>no_merges = True, right_only = True, cherry_pick = True,
            pretty = fmt, since_date = w,
            revisions = SymmetricDifference reference ''origin/master'',
            pathspec = []\<rparr> repo = Inr ms
          \<and> set ms = hexsha ` {c \<in> set (ancestry head).
                hexsha c \<notin> reachable_ids subject_tip
                \<and> \<not> list_ex (\<lambda>d. hexsha d \<notin> reachable_ids head \<and> patch_id d = patch_id c)
                     (ancestry subject_tip)
                \<and> w \<le> committed_date c \<and> \<not> is_merge c}"
proof -
  have "{x \<in> set (ancestry head). hexsha x \<notin> reachable_ids subject_tip \<and>
          patch_id x \<notin> patch_id ` {d \<in> set (ancestry subject_tip). hexsha d \<notin> reachable_ids head}
          \<and> \<not> is_merge x \<and> w \<le> committed_date x}
      = {c \<in> set (ancestry head). hexsha c \<notin> reachable_ids subject_tip
          \<and> \<not> list_ex (\<lambda>d. hexsha d \<notin> reachable_ids head \<and> patch_id d = patch_id c)
               (ancestry subject_tip)
          \<and> w \<le> committed_date c \<and> \<not> is_merge c}"
    by (auto simp: list_ex_iff image_iff)
  then show ?thesis
    using assms
    by (simp add: git_log_model_def rev_parse_def log_selects_def Let_def)
qed

text \<open>
  Claim C2. With the backend's \<open>log\<close> as modelled, both references resolving, and
  commit identities that identify the commits of the upstream history, the detector
  returns exactly \<open>M \<inter> U\<close>: \<open>U\<close> the non-merge commits reachable from the upstream
  head on tracked paths within the window, \<open>M\<close> the commits reachable only from the
  upstream side of the three-dot comparison, under patch-content equivalence, within the
  same window and with no path restriction.
\<close>

theorem cherry_pick_detector_intersection:
  assumes "git_log env = git_log_model"
    and "map_of repo ''origin/master'' = Some head"
    and "map_of repo reference = Some subject_tip"
    and "inj_on hexsha (set (ancestry head))"
    and "get_tracked_paths env \<noteq> []"
  shows "cherry_pick_candidates env repo reference =
     Inr (upstream_only_cherries subject_tip head (since env)
          \<inter> upstream_in_window head (get_tracked_paths env) (since env))"
proof -
  let ?U = "upstream_in_window head (get_tracked_paths env) (since env)"
  let ?M = "upstream_only_cherries subject_tip head (since env)"
  from log_upstream [OF assms(2,5)] obtain us where
    us: "git_log env (upstream_log_args env) repo = Inr us" "set us = ?U"
    unfolding upstream_log_args_def assms(1) by blast
  from log_cherries [OF assms(2,3)] obtain ms where
    ms: "git_log env (cherry_log_args env reference) repo = Inr ms"
    and sms: "set ms = hexsha ` {c \<in> set (ancestry head).
                hexsha c \<notin> reachable_ids subject_tip
                \<and> \<not> list_ex (\<lambda>d. hexsha d \<notin> reachable_ids head \<and> patch_id d = patch_id c)
                     (ancestry subject_tip)
                \<and> since env \<le> committed_date c \<and> \<not> is_merge c}"
    unfolding cherry_log_args_def assms(1) by blast
  have "set ms \<inter> ?U = ?M \<inter> ?U"
  proof
    show "set ms \<inter> ?U \<subseteq> ?M \<inter> ?U"
      unfolding sms by (auto simp: upstream_only_cherries_def)
    show "?M \<inter> ?U \<subseteq> set ms \<inter> ?U"
    proof
      fix x assume x: "x \<in> ?M \<inter> ?U"
      then obtain c where c: "c \<in> set (ancestry head)" "hexsha c = x"
          "hexsha c \<notin> reachable_ids subject_tip"
          "\<not> list_ex (\<lambda>d. hexsha d \<notin> reachable_ids head \<and> patch_id d = patch_id c)
               (ancestry subject_tip)"
          "since env \<le> committed_date c"
        by (auto simp: upstream_only_cherries_def)
      from x obtain c' where c': "c' \<in> set (ancestry head)" "hexsha c' = x" "\<not> is_merge c'"
        by (auto simp: upstream_in_window_def)
      from c(1,2) c'(1,2) assms(4) have "c = c'"
        by (auto dest: inj_onD)
      with c c'(3) have "x \<in> set ms"
        unfolding sms by blast
      with x show "x \<in> set ms \<inter> ?U" by simp
    qed
  qed
  then show ?thesis
    by (simp add: cherry_pick_candidates_def us ms)
qed

theorem cherry_pick_detector_intersection_witness:
  "upstream_in_window c_z [''drivers/hv''] 50 = {''y1'', ''x1''}
   \<and> upstream_only_cherries c_d c_z 50 = {''z1'', ''y1''}
   \<and> cherry_pick_candidates git_backend example_repo ''Ubuntu/v2'' = Inr {''y1''}"
proof -
  have u: "upstream_in_window c_z [''drivers/hv''] 50 = {''y1'', ''x1''}"
    by (simp add: upstream_in_window_def c_z_def c_y_def c_x_def c_base_def is_merge_def
        touches_def path_under_def)
  have m: "upstream_only_cherries c_d c_z 50 = {''z1'', ''y1''}"
    by (simp add: upstream_only_cherries_def c_z_def c_y_def c_x_def c_base_def c_d_def
        reachable_ids_def)
  have i: "inj_on hexsha (set (ancestry c_z))"
    by (simp add: c_z_def c_y_def c_x_def c_base_def)
  have 1: "git_log git_backend = git_log_model"
    by (simp add: git_backend_def)
  have 2: "map_of example_repo ''origin/master'' = Some c_z"
    by (simp add: example_repo_def)
  have 3: "map_of example_repo ''Ubuntu/v2'' = Some c_d"
    by (simp add: example_repo_def)
  have 4: "get_tracked_paths git_backend \<noteq> []"
    by (simp add: git_backend_def)
  have 5: "get_tracked_paths git_backend = [''drivers/hv'']" "since git_backend = 50"
    by (simp_all add: git_backend_def)
  have "{''z1'', ''y1''} \<inter> {''y1'', ''x1''} = {''y1''}"
    by auto
  then show ?thesis
    using cherry_pick_detector_intersection [OF 1 2 3 i 4] u m
    by (simp add: 5)
qed

section \<open>The symbol drift tracker (comma/util/symbols.py)\<close>

subsection \<open>Python's string operations\<close>

text \<open>\<open>sep.join(xs)\<close>.\<close>

fun py_join :: "string \<Rightarrow> string list \<Rightarrow> string" where
  "py_join sep [] = []"
| "py_join sep [x] = x"
| "py_join sep (x # y # ys) = x @ sep @ py_join sep (y # ys)"


text \<open>\<open>s.split(sep)\<close> with a separator of one character: the string is cut at every
  occurrence, so the empty string gives one empty word.\<close>

fun py_split :: "char \<Rightarrow> string \<Rightarrow> string list" where
  "py_split sep [] = [[]]"
| "py_split sep (c # cs) =
     (if c = sep then [] # py_split sep cs
      else (case py_split sep cs of
              [] \<Rightarrow> [[c]]
            | w # ws \<Rightarrow> (c # w) # ws))"


text \<open>\<open>s.strip()\<close>: leading and trailing whitespace removed. The whitespace
  characters are those of ASCII (tab to carriage return, the four separators 0x1C to
  0x1F, and space); a string is a list of bytes here, so whitespace beyond ASCII is not
  recognised.\<close>

definition is_space :: "char \<Rightarrow> bool" where
  "is_space c = (c \<in> set [CHR 0x09, CHR 0x0A, CHR 0x0B, CHR 0x0C, CHR 0x0D,
                         CHR 0x1C, CHR 0x1D, CHR 0x1E, CHR 0x1F, CHR 0x20])"


definition py_strip :: "string \<Rightarrow> string" where
  "py_strip s = rev (dropWhile is_space (rev (dropWhile is_space s)))"

subsection \<open>The repository and the symbol extractor\<close>

text \<open>
  What is checked out: a reference (HEAD is attached to it) or a commit (HEAD is
  detached). \<open>repo.head.reference\<close> raises TypeError on a detached HEAD.
\<close>

datatype checked_out = Attached string | Detached string

text \<open>
  The collaborators of the tracker: whether a checkout of a target succeeds, and the
  two processes of the shell command of \<open>get_symbols\<close>, each with its exit status
  and the lines it prints: \<open>ctags\<close> on the working tree of what is checked out, for
  the given paths, and \<open>awk\<close> on the lines piped to it.
\<close>

record symbols_backend =
  can_checkout :: "checked_out \<Rightarrow> bool"
  ctags :: "checked_out \<Rightarrow> string list \<Rightarrow> int \<times> string list"
  awk :: "string list \<Rightarrow> int \<times> string list"

text \<open>
  \<open>get_symbols(repo.working_tree_dir, paths)\<close> (lines 23 to 42): the command is the
  pipeline \<open>ctags ... | awk ...\<close>, run by the shell, so the return code that
  \<open>check=True\<close> tests is the exit status of \<open>awk\<close>, the last command; the exit
  status of \<open>ctags\<close> is not looked at. The result is the set of the lines printed.
\<close>

definition get_symbols ::
  "symbols_backend \<Rightarrow> checked_out \<Rightarrow> string list \<Rightarrow> error + string list" where
  "get_symbols env h files =
     (let (ctags_status, ctags_stdout) = ctags env h files;
          (returncode, stdout) = awk env ctags_stdout
      in if returncode \<noteq> 0 then Inl (CalledProcessError returncode) else Inr stdout)"

text \<open>\<open>repo.head.reference\<close>, read before the \<open>try\<close> block.\<close>

definition head_reference :: "checked_out \<Rightarrow> error + checked_out" where
  "head_reference h = (case h of Attached r \<Rightarrow> Inr (Attached r) | Detached c \<Rightarrow> Inl TypeError)"

text \<open>\<open>repo.checkout(target)\<close>: on success the target is what is checked out; on
  failure nothing changes.\<close>

definition checkout :: "symbols_backend \<Rightarrow> checked_out \<Rightarrow> checked_out \<Rightarrow> error + checked_out" where
  "checkout env target h =
     (if can_checkout env target then Inr target
      else Inl (GitCommandError ''error: pathspec did not match''))"

text \<open>
  The session of lines 120 to 122: \<open>.one()\<close> raises unless exactly one row has the
  commit id; the row's \<open>symbols\<close> are overwritten, and leaving the \<open>with\<close> block
  commits.
\<close>

definition save_symbols :: "string \<Rightarrow> string \<Rightarrow> PatchData list \<Rightarrow> error + PatchData list" where
  "save_symbols commit syms db =
     (case filter (\<lambda>p. commitID p = commit) db of
        [] \<Rightarrow> Inl NoResultFound
      | [patch] \<Rightarrow> Inr (map (\<lambda>p. if commitID p = commit then p\<lparr>symbols := Some syms\<rparr> else p) db)
      | _ \<Rightarrow> Inl MultipleResultsFound)"

text \<open>
  \<open>after_patch_apply - before_patch_apply\<close> on Python sets. A set is a list without
  duplicates here; the order in which Python iterates over a set is unspecified, and
  this model takes the order of the command's output.
\<close>

definition set_difference :: "string list \<Rightarrow> string list \<Rightarrow> string list" where
  "set_difference after before = remdups (filter (\<lambda>s. s \<notin> set before) after)"

text \<open>
  The body of the loop (lines 104 to 125) for one commit: the result is the new
  \<open>before_patch_apply\<close>, or the exception raised, with what is checked out and the
  table at that moment.
\<close>

definition replay_step ::
  "symbols_backend \<Rightarrow> string list \<Rightarrow> string \<Rightarrow> string list option \<Rightarrow> checked_out
   \<Rightarrow> PatchData list \<Rightarrow> (error + string list) \<times> checked_out \<times> PatchData list" where
  "replay_step env paths commit before_patch_apply h db =
     (case (case before_patch_apply of None \<Rightarrow> get_symbols env h paths | Some b \<Rightarrow> Inr b) of
        Inl e \<Rightarrow> (Inl e, h, db)
      | Inr before \<Rightarrow>
          (case checkout env (Detached commit) h of
             Inl e \<Rightarrow> (Inl e, h, db)
           | Inr h' \<Rightarrow>
               (case get_symbols env h' paths of
                  Inl e \<Rightarrow> (Inl e, h', db)
                | Inr after_patch_apply \<Rightarrow>
                    (let diff_symbols = set_difference after_patch_apply before
                     in case save_symbols commit (py_join '' '' diff_symbols) db of
                          Inl e \<Rightarrow> (Inl e, h', db)
                        | Inr db' \<Rightarrow> (Inr after_patch_apply, h', db')))))"

text \<open>The loop \<open>for commit in commits\<close>.\<close>

fun replay ::
  "symbols_backend \<Rightarrow> string list \<Rightarrow> string list \<Rightarrow> string list option \<Rightarrow> checked_out
   \<Rightarrow> PatchData list \<Rightarrow> error option \<times> checked_out \<times> PatchData list" where
  "replay env paths [] before_patch_apply h db = (None, h, db)"
| "replay env paths (commit # commits) before_patch_apply h db =
     (case replay_step env paths commit before_patch_apply h db of
        (Inl e, h', db') \<Rightarrow> (Some e, h', db')
      | (Inr after_patch_apply, h', db') \<Rightarrow>
          replay env paths commits (Some after_patch_apply) h' db')"

text \<open>
  \<open>map_symbols_to_patch\<close>: the initial reference is read before the \<open>try\<close>; the
  \<open>finally\<close> clause checks it out again, whatever the \<open>try\<close> block did. An
  exception of the \<open>finally\<close> clause replaces the one of the block.
\<close>

definition map_symbols_to_patch ::
  "symbols_backend \<Rightarrow> string list \<Rightarrow> string list \<Rightarrow> string \<Rightarrow> checked_out \<Rightarrow> PatchData list
   \<Rightarrow> error option \<times> checked_out \<times> PatchData list" where
  "map_symbols_to_patch env commits paths prev_commit h db =
     (case head_reference h of
        Inl e \<Rightarrow> (Some e, h, db)
      | Inr initial_reference \<Rightarrow>
          (let (raised, h1, db1) =
                 (case checkout env (Detached prev_commit) h of
                    Inl e \<Rightarrow> (Some e, h, db)
                  | Inr h0 \<Rightarrow> replay env paths commits None h0 db)
           in case checkout env initial_reference h1 of
                Inl e \<Rightarrow> (Some e, h1, db1)
              | Inr h2 \<Rightarrow> (raised, h2, db1)))"

subsection \<open>The deltas a replay persists\<close>

text \<open>The symbols extracted with a given target checked out (none when the
  command raises).\<close>

definition symbols_at :: "symbols_backend \<Rightarrow> string list \<Rightarrow> checked_out \<Rightarrow> string list" where
  "symbols_at env paths h = (case get_symbols env h paths of Inl e \<Rightarrow> [] | Inr ls \<Rightarrow> ls)"

text \<open>Exactly one row has the commit id, and its \<open>symbols\<close> are the joined
  delta.\<close>

definition delta_persisted :: "PatchData list \<Rightarrow> string \<Rightarrow> string list \<Rightarrow> bool" where
  "delta_persisted db commit ds =
     (map symbols (filter (\<lambda>p. commitID p = commit) db) = [Some (py_join '' '' ds)])"

text \<open>The delta of commit \<open>i\<close> of the sequence: its symbols without those of its
  predecessor, the baseline for the first commit.\<close>

definition expected_delta ::
  "symbols_backend \<Rightarrow> string list \<Rightarrow> string \<Rightarrow> string list \<Rightarrow> nat \<Rightarrow> string list" where
  "expected_delta env paths prev_commit commits i =
     set_difference (symbols_at env paths (Detached (commits ! i)))
       (symbols_at env paths (Detached (if i = 0 then prev_commit else commits ! (i - 1))))"

subsection \<open>The history of the spec's example\<close>

text \<open>
  The awk program of the command, \<open>{ if ($2 == "function") print $1 }\<close>, in a run
  that ends with status 0: the fields of a line are its words between blanks.
\<close>

fun split_blanks :: "string \<Rightarrow> string list" where
  "split_blanks [] = [[]]"
| "split_blanks (c # cs) =
     (if c = CHR '' '' \<or> c = CHR 0x09 then [] # split_blanks cs
      else (case split_blanks cs of
              [] \<Rightarrow> [[c]]
            | w # ws \<Rightarrow> (c # w) # ws))"

definition awk_fields :: "string \<Rightarrow> string list" where
  "awk_fields line = filter (\<lambda>w. w \<noteq> []) (split_blanks line)"

definition awk_print_functions :: "string list \<Rightarrow> int \<times> string list" where
  "awk_print_functions lines =
     (0, concat (map (\<lambda>line. let fields = awk_fields line
                             in if length fields \<ge> 2 \<and> fields ! 1 = ''function''
                                then [fields ! 0] else [])
                   lines))"

text \<open>
  The baseline has the functions a and b; commit1 adds c; commit2 removes b and adds
  d. commit3 is in the table and not in the repository, so its checkout fails. Where
  nothing else is known \<open>ctags\<close> prints nothing and ends with status 1.
\<close>

definition drift_backend :: symbols_backend where
  "drift_backend =
     \<lparr>can_checkout = (\<lambda>target. target \<noteq> Detached ''commit3''),
      ctags = (\<lambda>h files.
         if h = Detached ''base''
           then (0, [''a function 1 hv.c void a(void)'', ''b function 5 hv.c void b(void)'',
                     ''N macro 9 hv.c #define N 1''])
         else if h = Detached ''commit1''
           then (0, [''a function 1 hv.c void a(void)'', ''b function 5 hv.c void b(void)'',
                     ''c function 7 hv.c void c(void)''])
         else if h = Detached ''commit2''
           then (0, [''a function 1 hv.c void a(void)'', ''c function 7 hv.c void c(void)'',
                     ''d function 9 hv.c void d(void)''])
         else (1, [])),
      awk = awk_print_functions\<rparr>"


definition drift_db :: "PatchData list" where
  "drift_db =
     [\<lparr>patchID = 1, commitID = ''commit1'', commitTime = 100, symbols = None\<rparr>,
      \<lparr>patchID = 2, commitID = ''commit2'', commitTime = 200, symbols = None\<rparr>,
      \<lparr>patchID = 3, commitID = ''commit3'', commitTime = 300, symbols = None\<rparr>]"

definition drift_db_after :: "PatchData list" where
  "drift_db_after =
     [\<lparr>patchID = 1, commitID = ''commit1'', commitTime = 100, symbols = Some ''c''\<rparr>,
      \<lparr>patchID = 2, commitID = ''commit2'', commitTime = 200, symbols = Some ''d''\<rparr>,
      \<lparr>patchID = 3, commitID = ''commit3'', commitTime = 300, symbols = None\<rparr>]"

lemma drift_symbols:
  "get_symbols drift_backend (Detached ''base'') files = Inr [''a'', ''b'']"
  "get_symbols drift_backend (Detached ''commit1'') files = Inr [''a'', ''b'', ''c'']"
  "get_symbols drift_backend (Detached ''commit2'') files = Inr [''a'', ''c'', ''d'']"
  by (simp_all add: get_symbols_def drift_backend_def awk_print_functions_def awk_fields_def)


lemma drift_run:
  "map_symbols_to_patch drift_backend [''commit1'', ''commit2''] [''drivers/hv''] ''base''
     (Attached ''master'') drift_db = (None, Attached ''master'', drift_db_after)"
  by (simp add: map_symbols_to_patch_def head_reference_def checkout_def replay_step_def
      drift_symbols set_difference_def save_symbols_def drift_db_def drift_db_after_def)
    (simp add: drift_backend_def)


lemma set_set_difference: "set (set_difference xs ys) = set xs - set ys"
  by (auto simp: set_difference_def)

subsection \<open>Properties of the replay\<close>

lemma checkout_target: "checkout env target h = Inr h' \<Longrightarrow> h' = target"
  by (simp add: checkout_def split: if_splits)

lemma save_symbols_same:
  assumes "save_symbols c s db = Inr db'"
  shows "map symbols (filter (\<lambda>p. commitID p = c) db') = [Some s]"
proof -
  let ?f = "\<lambda>p. if commitID p = c then p\<lparr>symbols := Some s\<rparr> else p"
  from assms obtain p where p: "filter (\<lambda>p. commitID p = c) db = [p]" and db': "db' = map ?f db"
    by (auto simp: save_symbols_def split: list.splits)
  from p have "p \<in> set (filter (\<lambda>p. commitID p = c) db)" by simp
  then have c: "commitID p = c" by simp
  have "filter (\<lambda>p. commitID p = c) (map ?f db) = map ?f (filter (\<lambda>p. commitID p = c) db)"
    by (induction db) auto
  with p db' c show ?thesis by simp
qed

lemma save_symbols_other:
  assumes "save_symbols c s db = Inr db'" and "c' \<noteq> c"
  shows "filter (\<lambda>p. commitID p = c') db' = filter (\<lambda>p. commitID p = c') db"
proof -
  let ?f = "\<lambda>p. if commitID p = c then p\<lparr>symbols := Some s\<rparr> else p"
  from assms obtain db': "db' = map ?f db"
    by (auto simp: save_symbols_def split: list.splits)
  have "filter (\<lambda>p. commitID p = c') (map ?f db) = filter (\<lambda>p. commitID p = c') db"
    using assms(2) by (induction db) auto
  with db' show ?thesis by simp
qed

lemma replay_step_failure: "replay_step env paths commit b h db = (Inl e, h', db') \<Longrightarrow> db' = db"
  by (auto simp: replay_step_def Let_def split: sum.splits)

lemma replay_step_success:
  assumes "replay_step env paths commit b h db = (Inr after, h', db')"
  shows "h' = Detached commit"
    and "symbols_at env paths (Detached commit) = after"
    and "save_symbols commit (py_join '' ''
           (set_difference after (case b of None \<Rightarrow> symbols_at env paths h | Some x \<Rightarrow> x))) db
         = Inr db'"
  using assms
  by (auto simp: replay_step_def Let_def symbols_at_def split: sum.splits option.splits
      dest!: checkout_target)

lemma replay_frame:
  "replay env paths cs b h db = (raised, h', db') \<Longrightarrow> c \<notin> set cs \<Longrightarrow>
   filter (\<lambda>p. commitID p = c) db' = filter (\<lambda>p. commitID p = c) db"
proof (induction cs arbitrary: b h db)
  case Nil
  then show ?case by simp
next
  case (Cons commit cs)
  from Cons.prems(2) have ne: "c \<noteq> commit" and notin: "c \<notin> set cs" by auto
  obtain r h1 db1 where step: "replay_step env paths commit b h db = (r, h1, db1)"
    by (cases "replay_step env paths commit b h db") auto
  show ?case
  proof (cases r)
    case (Inl e)
    with step Cons.prems(1) replay_step_failure [of env paths commit b h db e h1 db1]
    show ?thesis by simp
  next
    case (Inr after)
    with step Cons.prems(1) have "replay env paths cs (Some after) h1 db1 = (raised, h', db')"
      by simp
    from Cons.IH [OF this notin] replay_step_success(3) [OF step [unfolded Inr]]
    show ?thesis
      by (simp add: save_symbols_other [OF _ ne])
  qed
qed

lemma replay_success:
  "replay env paths cs b h db = (None, h', db') \<Longrightarrow> distinct cs \<Longrightarrow> i < length cs \<Longrightarrow>
   delta_persisted db' (cs ! i)
     (set_difference (symbols_at env paths (Detached (cs ! i)))
        (if i = 0 then (case b of None \<Rightarrow> symbols_at env paths h | Some x \<Rightarrow> x)
         else symbols_at env paths (Detached (cs ! (i - 1)))))"
proof (induction cs arbitrary: b h db i)
  case Nil
  then show ?case by simp
next
  case (Cons commit cs)
  from Cons.prems(1) obtain after h1 db1 where
    step: "replay_step env paths commit b h db = (Inr after, h1, db1)"
    and rest: "replay env paths cs (Some after) h1 db1 = (None, h', db')"
    by (auto split: prod.splits sum.splits)
  note s = replay_step_success [OF step]
  show ?case
  proof (cases i)
    case 0
    from Cons.prems(2) have "commit \<notin> set cs" by simp
    from replay_frame [OF rest this] save_symbols_same [OF s(3)]
    show ?thesis
      using 0 by (simp add: delta_persisted_def s(2))
  next
    case (Suc j)
    with Cons.prems have j: "j < length cs" and d: "distinct cs" by simp_all
    from Cons.IH [OF rest d j] show ?thesis
      using Suc s(2) by (cases j) simp_all
  qed
qed


text \<open>
  Claim C5. After a replay that completes, the delta persisted onto commit \<open>i\<close> of a
  sequence of distinct commits is the set difference of the symbols of commit \<open>i\<close>
  and the symbols of commit \<open>i - 1\<close> (of the baseline for \<open>i = 0\<close>): only newly
  introduced symbols are recorded, and no symbol of the predecessor, in particular none
  that the commit removes, is recorded in the commit's delta.
\<close>

theorem symbol_delta_is_set_difference:
  assumes "map_symbols_to_patch env commits paths prev_commit h db = (None, h', db')"
    and "distinct commits" and "i < length commits"
  shows "delta_persisted db' (commits ! i) (expected_delta env paths prev_commit commits i)
     \<and> set (expected_delta env paths prev_commit commits i)
         = set (symbols_at env paths (Detached (commits ! i)))
           - set (symbols_at env paths
                   (Detached (if i = 0 then prev_commit else commits ! (i - 1))))
     \<and> (\<forall>s. s \<in> set (symbols_at env paths
                       (Detached (if i = 0 then prev_commit else commits ! (i - 1))))
            \<longrightarrow> s \<notin> set (expected_delta env paths prev_commit commits i))"
proof -
  from assms(1) obtain h1 where
    "replay env paths commits None (Detached prev_commit) db = (None, h1, db')"
    by (auto simp: map_symbols_to_patch_def Let_def
        split: sum.splits prod.splits dest!: checkout_target)
  from replay_success [OF this assms(2,3)]
  have "delta_persisted db' (commits ! i) (expected_delta env paths prev_commit commits i)"
    by (simp add: expected_delta_def split: if_splits)
  then show ?thesis
    by (simp add: expected_delta_def set_set_difference)
qed

theorem symbol_delta_is_set_difference_witness:
  "map_symbols_to_patch drift_backend [''commit1'', ''commit2''] [''drivers/hv''] ''base''
     (Attached ''master'') drift_db = (None, Attached ''master'', drift_db_after)
   \<and> expected_delta drift_backend [''drivers/hv''] ''base'' [''commit1'', ''commit2''] 1 = [''d'']
   \<and> delta_persisted drift_db_after ''commit2'' [''d'']
   \<and> ''b'' \<notin> set (expected_delta drift_backend [''drivers/hv''] ''base''
                      [''commit1'', ''commit2''] 1)"
proof -
  have e: "expected_delta drift_backend [''drivers/hv''] ''base'' [''commit1'', ''commit2''] 1
             = [''d'']"
    by (simp add: expected_delta_def symbols_at_def drift_symbols set_difference_def)
  have d: "distinct [''commit1'', ''commit2'']" and i: "(1::nat) < length [''commit1'', ''commit2'']"
    by simp_all
  have nb: "''b'' \<notin> set (expected_delta drift_backend [''drivers/hv''] ''base''
                      [''commit1'', ''commit2''] 1)"
    unfolding e by simp
  have p: "delta_persisted drift_db_after ''commit2'' [''d'']"
    using symbol_delta_is_set_difference [OF drift_run d i] unfolding e by simp
  show ?thesis
    by (intro conjI drift_run e p nb)
qed




text \<open>
  Outside the amended claim: an exit status of \<open>ctags\<close> that is not zero raises
  nothing, since the return code of the command is that of \<open>awk\<close>; the replay goes on
  with the lines \<open>awk\<close> printed.
\<close>

lemma get_symbols_ignores_ctags_status:
  "awk env (snd (ctags env h files)) = (0, stdout) \<Longrightarrow> get_symbols env h files = Inr stdout"
  by (auto simp: get_symbols_def split: prod.splits)

section \<open>The missing-symbol query (Symbols.symbol\_checker)\<close>

text \<open>
  The query of lines 143 to 146 on rows already ordered by commit time: the pairs
  \<open>(commitID, symbols)\<close> of the rows whose \<open>symbols\<close> differ from the string of one
  space. A comparison with NULL is not true in SQL, so a row without symbols is left
  out. The comparison is that of the strings as they are.
\<close>

fun query_symbols :: "PatchData list \<Rightarrow> (string \<times> string) list" where
  "query_symbols [] = []"
| "query_symbols (p # ps) =
     (case symbols p of
        None \<Rightarrow> query_symbols ps
      | Some s \<Rightarrow> if s \<noteq> '' '' then (commitID p, s) # query_symbols ps else query_symbols ps)"
text \<open>
  \<open>symbol_checker\<close>, given the lines of the symbol file: the commit ids of the
  queried rows with a word of \<open>symbols.split(" ")\<close> outside the stripped lines of the
  file, passed through \<open>sorted\<close>, which orders the ids as strings.
\<close>

definition symbol_checker :: "string list \<Rightarrow> PatchData list \<Rightarrow> string list" where
  "symbol_checker file_lines db =
     (let symbols_in_file = set (map py_strip file_lines)
      in sort (map fst
           (filter (\<lambda>(commitID, symbols).
                      list_ex (\<lambda>s. s \<notin> symbols_in_file) (py_split CHR '' '' symbols))
              (query_symbols (sort_key commitTime db)))))"
text \<open>The symbols persisted on a row: the words of its \<open>symbols\<close> column, none for
  NULL.\<close>

definition persisted_delta :: "PatchData \<Rightarrow> string list" where
  "persisted_delta p =
     (case symbols p of
        None \<Rightarrow> []
      | Some s \<Rightarrow> filter (\<lambda>w. w \<noteq> []) (py_split CHR '' '' s))"
text \<open>A row whose \<open>symbols\<close>, if any, are words separated by single spaces: what
  the tracker writes for a delta that is not empty.\<close>

definition well_formed_symbols :: "PatchData \<Rightarrow> bool" where
  "well_formed_symbols p =
     (case symbols p of None \<Rightarrow> True | Some s \<Rightarrow> [] \<notin> set (py_split CHR '' '' s))"
text \<open>The row's persisted delta has a symbol that is not in the reference list.\<close>

definition lacks_symbol :: "string list \<Rightarrow> PatchData \<Rightarrow> bool" where
  "lacks_symbol file_lines p =
     list_ex (\<lambda>s. s \<notin> set (map py_strip file_lines)) (persisted_delta p)"
definition commits_out_of_order :: "PatchData list" where
  "commits_out_of_order =
     [\<lparr>patchID = 1, commitID = ''b1'', commitTime = 100, symbols = Some ''x''\<rparr>,
      \<lparr>patchID = 2, commitID = ''a2'', commitTime = 200, symbols = Some ''y''\<rparr>]"

subsection \<open>What the query returns\<close>

lemma py_split_no_sep: "sep \<notin> set s \<Longrightarrow> py_split sep s = [s]"
  by (induction s) auto

lemma py_split_append: "sep \<notin> set s \<Longrightarrow> py_split sep (s @ sep # rest) = s # py_split sep rest"
  by (induction s) auto

lemma py_split_join:
  "ds \<noteq> [] \<Longrightarrow> \<forall>s \<in> set ds. sep \<notin> set s \<Longrightarrow> py_split sep (py_join [sep] ds) = ds"
  by (induction "[sep]" ds rule: py_join.induct) (auto simp: py_split_no_sep py_split_append)

lemma query_filter:
  "map fst (filter (\<lambda>(c, s). Q s) (query_symbols xs)) =
   map commitID (filter (\<lambda>p. case symbols p of None \<Rightarrow> False | Some s \<Rightarrow> s \<noteq> '' '' \<and> Q s) xs)"
  by (induction xs) (auto split: option.splits)

lemma well_formed_lacks:
  assumes "well_formed_symbols p"
  shows "(case symbols p of None \<Rightarrow> False
          | Some s \<Rightarrow> s \<noteq> '' '' \<and> list_ex (\<lambda>w. w \<notin> R) (py_split CHR '' '' s))
         = list_ex (\<lambda>w. w \<notin> R) (persisted_delta p)"
proof (cases "symbols p")
  case None
  then show ?thesis by (simp add: persisted_delta_def)
next
  case (Some s)
  with assms have n: "[] \<notin> set (py_split CHR '' '' s)"
    by (simp add: well_formed_symbols_def)
  then have "filter (\<lambda>w. w \<noteq> []) (py_split CHR '' '' s) = py_split CHR '' '' s"
    by (auto simp: filter_id_conv)
  moreover from n have "s \<noteq> '' ''" by auto
  ultimately show ?thesis
    using Some by (simp add: persisted_delta_def)
qed

lemma sort_cong_mset: "mset xs = mset ys \<Longrightarrow> sort xs = sort (ys :: 'a::linorder list)"
  by (rule properties_for_sort) simp_all

lemma symbol_checker_eq:
  assumes "list_all well_formed_symbols db"
  shows "symbol_checker file_lines db = sort (map commitID (filter (lacks_symbol file_lines) db))"
proof -
  let ?R = "set (map py_strip file_lines)"
  let ?P = "\<lambda>p. case symbols p of None \<Rightarrow> False
          | Some s \<Rightarrow> s \<noteq> '' '' \<and> list_ex (\<lambda>w. w \<notin> ?R) (py_split CHR '' '' s)"
  have "symbol_checker file_lines db = sort (map commitID (filter ?P (sort_key commitTime db)))"
    unfolding symbol_checker_def Let_def query_filter [symmetric] ..
  also have "\<dots> = sort (map commitID (filter ?P db))"
    by (rule sort_cong_mset) simp
  also have "filter ?P db = filter (lacks_symbol file_lines) db"
    using assms
    by (intro filter_cong refl) (simp add: list_all_iff well_formed_lacks lacks_symbol_def)
  finally show ?thesis .
qed
text \<open>
  Claim C4, as stated, asks for the returned commit ids in the order of commit time.
  With the older commit \<open>b1\<close> and the newer commit \<open>a2\<close> both missing a symbol, the
  order by commit time is b1, a2, and the query returns a2, b1.
\<close>

theorem find_missing_order_counterexample:
  "map commitID (sort_key commitTime commits_out_of_order) = [''b1'', ''a2'']
   \<and> symbol_checker [] commits_out_of_order = [''a2'', ''b1'']"
  by (simp add: commits_out_of_order_def symbol_checker_def)

text \<open>
  Claim C4, amended. Where every row's symbols are NULL or words separated by single
  spaces, \<open>symbol_checker\<close> returns the commit ids of exactly the rows whose persisted
  delta has a symbol absent from the stripped lines of the reference file, sorted as
  strings; a commit whose rows have all their symbols in the reference list is not
  returned. The words of a row the tracker wrote for a delta that is not empty, of
  symbols without spaces, are that delta.
\<close>

theorem find_missing_sorted_by_id:
  assumes "list_all well_formed_symbols db"
  shows "symbol_checker file_lines db
           = sort (map commitID (filter (lacks_symbol file_lines) db))
     \<and> sorted (symbol_checker file_lines db)
     \<and> ((\<forall>p \<in> set db. commitID p = c \<longrightarrow> \<not> lacks_symbol file_lines p)
          \<longrightarrow> c \<notin> set (symbol_checker file_lines db))
     \<and> (ds \<noteq> [] \<and> (\<forall>s \<in> set ds. s \<noteq> [] \<and> CHR '' '' \<notin> set s)
          \<longrightarrow> well_formed_symbols (p\<lparr>symbols := Some (py_join '' '' ds)\<rparr>)
              \<and> persisted_delta (p\<lparr>symbols := Some (py_join '' '' ds)\<rparr>) = ds)"
proof -
  note eq = symbol_checker_eq [OF assms, of file_lines]
  have 1: "sorted (symbol_checker file_lines db)"
    unfolding eq by simp
  have 2: "c \<notin> set (symbol_checker file_lines db)"
    if "\<forall>p \<in> set db. commitID p = c \<longrightarrow> \<not> lacks_symbol file_lines p"
    using that unfolding eq by auto
  have 3: "well_formed_symbols (p\<lparr>symbols := Some (py_join '' '' ds)\<rparr>)
      \<and> persisted_delta (p\<lparr>symbols := Some (py_join '' '' ds)\<rparr>) = ds"
    if "ds \<noteq> [] \<and> (\<forall>s \<in> set ds. s \<noteq> [] \<and> CHR '' '' \<notin> set s)"
  proof -
    from that have "py_split CHR '' '' (py_join '' '' ds) = ds"
      by (intro py_split_join) auto
    moreover from that have "[] \<notin> set ds" "\<forall>x \<in> set ds. x \<noteq> []" by auto
    ultimately show ?thesis
      by (simp add: well_formed_symbols_def persisted_delta_def filter_id_conv)
  qed
  from eq 1 2 3 show ?thesis by blast
qed

theorem find_missing_sorted_by_id_witness:
  "list_all well_formed_symbols drift_db_after
   \<and> symbol_checker [''a\<newline>'', ''c\<newline>''] drift_db_after = [''commit2'']
   \<and> filter (lacks_symbol [''a\<newline>'', ''c\<newline>'']) drift_db_after
       = [\<lparr>patchID = 2, commitID = ''commit2'', commitTime = 200, symbols = Some ''d''\<rparr>]
   \<and> ''commit1'' \<notin> set (symbol_checker [''a\<newline>'', ''c\<newline>''] drift_db_after)
   \<and> persisted_delta
        \<lparr>patchID = 1, commitID = ''commit1'', commitTime = 100, symbols = Some ''c d''\<rparr>
       = [''c'', ''d'']"
proof -
  let ?row = "\<lparr>patchID = 1, commitID = ''commit1'', commitTime = 100, symbols = None\<rparr>"
  have w: "list_all well_formed_symbols drift_db_after"
    by (simp add: drift_db_after_def well_formed_symbols_def)
  have f: "filter (lacks_symbol [''a\<newline>'', ''c\<newline>'']) drift_db_after
       = [\<lparr>patchID = 2, commitID = ''commit2'', commitTime = 200, symbols = Some ''d''\<rparr>]"
    by (simp add: drift_db_after_def lacks_symbol_def persisted_delta_def py_strip_def
        is_space_def)
  have h3: "\<forall>p \<in> set drift_db_after.
              commitID p = ''commit1'' \<longrightarrow> \<not> lacks_symbol [''a\<newline>'', ''c\<newline>''] p"
    by (simp add: drift_db_after_def lacks_symbol_def persisted_delta_def py_strip_def
        is_space_def)
  have h4: "[''c'', ''d''] \<noteq> [] \<and> (\<forall>s \<in> set [''c'', ''d'']. s \<noteq> [] \<and> CHR '' '' \<notin> set s)"
    by simp
  note th = find_missing_sorted_by_id
    [OF w, of "[''a\<newline>'', ''c\<newline>'']" "''commit1''" "[''c'', ''d'']" ?row]
  from th have s: "symbol_checker [''a\<newline>'', ''c\<newline>''] drift_db_after = [''commit2'']"
    unfolding f by simp
  from th h3 have n: "''commit1'' \<notin> set (symbol_checker [''a\<newline>'', ''c\<newline>''] drift_db_after)"
    by blast
  from th h4 have "persisted_delta (?row\<lparr>symbols := Some (py_join '' '' [''c'', ''d''])\<rparr>)
      = [''c'', ''d'']"
    by blast
  then have d: "persisted_delta
        \<lparr>patchID = 1, commitID = ''commit1'', commitTime = 100, symbols = Some ''c d''\<rparr>
       = [''c'', ''d'']"
    by simp
  show ?thesis
    by (intro conjI w s f n d)
qed

text \<open>
  Outside the amended claim: a row whose delta is empty has the empty string as its
  symbols, which differs from the string of one space and splits into one empty word,
  so the row is returned unless the reference file has a blank line.
\<close>

lemma symbol_checker_empty_delta:
  "symbol_checker [''a\<newline>'']
     [\<lparr>patchID = 1, commitID = ''commit1'', commitTime = 100, symbols = Some []\<rparr>]
   = [''commit1'']"
  by (simp add: symbol_checker_def py_strip_def is_space_def)

section \<open>Parsing commit messages (UpstreamTracker/ParseData.py, parse\_log)\<close>

text \<open>\<open>s.lower()\<close>, on the letters of ASCII; other bytes are left as they are.\<close>

definition py_lower_char :: "char \<Rightarrow> char" where
  "py_lower_char c =
     (case map_of (zip ''ABCDEFGHIJKLMNOPQRSTUVWXYZ'' ''abcdefghijklmnopqrstuvwxyz'') c of
        None \<Rightarrow> c
      | Some l \<Rightarrow> l)"

definition py_lower :: "string \<Rightarrow> string" where
  "py_lower s = map py_lower_char s"

text \<open>\<open>xs[i]\<close> for an index that is not negative: IndexError out of range.\<close>

definition py_index :: "'a list \<Rightarrow> nat \<Rightarrow> error + 'a" where
  "py_index xs i = (if i < length xs then Inr (xs ! i) else Inl IndexError)"

text \<open>\<open>should_keep_line\<close> (lines 69 to 76): blank lines and the lines that start,
  in lower case, with one of the ignored phrases are dropped.\<close>

definition ignore_phrases :: "string list" where
  "ignore_phrases = [''reported-by:'', ''signed-off-by:'', ''reviewed-by:'', ''acked-by:'', ''cc:'']"

definition should_keep_line :: "string \<Rightarrow> bool" where
  "should_keep_line line =
     (let simplified_line = py_lower line
      in if simplified_line = [] then False
         else if list_ex (startswith simplified_line) ignore_phrases then False
         else True)"

text \<open>\<open>split_message\<close> (line 65): the lines of the message, stripped.\<close>

definition split_message_of :: "string \<Rightarrow> string list" where
  "split_message_of message = map py_strip (py_split CHR 0x0A message)"

text \<open>\<open>description_lines\<close> (lines 77 to 80).\<close>

definition description_lines_of :: "string \<Rightarrow> string list" where
  "description_lines_of message =
     (let split_message = split_message_of message
      in if length split_message > 1 then filter should_keep_line (drop 1 split_message)
         else [])"

text \<open>
  The loop of lines 89 to 92 over the lines that start with \<open>fixes:\<close>: the second
  word is read only under the guard \<open>len(words) > 1\<close>. The read is the same checked
  read as in the BugLink extraction.
\<close>

fun collect_fixed_patches :: "string list \<Rightarrow> error + string list" where
  "collect_fixed_patches [] = Inr []"
| "collect_fixed_patches (line # lines) =
     (let words = py_split CHR '' '' line
      in if length words > 1
         then (case py_index words 1 of
                 Inl e \<Rightarrow> Inl e
               | Inr w \<Rightarrow>
                   (case collect_fixed_patches lines of
                      Inl e \<Rightarrow> Inl e
                    | Inr ws \<Rightarrow> Inr (w # ws)))
         else collect_fixed_patches lines)"

text \<open>Lines 86 to 93; \<open>fixed_patches\<close> keeps the empty string of
  \<open>get_patch_object\<close> otherwise.\<close>

definition extract_fixed_patches :: "string \<Rightarrow> string list \<Rightarrow> string \<Rightarrow> error + string" where
  "extract_fixed_patches indicator description_lines description =
     (if indicator = ''Upstream'' \<and> description \<noteq> []
      then (case collect_fixed_patches
                   (filter (\<lambda>x. startswith (py_lower (py_strip x)) ''fixes:'') description_lines) of
              Inl e \<Rightarrow> Inl e
            | Inr fixed_patches \<Rightarrow> Inr (py_join '' '' fixed_patches))
      else Inr [])"

text \<open>
  Lines 95 to 100: for an indicator that starts with \<open>Ub\<close>, the second word of the
  first line that starts with \<open>BugLink:\<close> is read with no check of the number of
  words.
\<close>

definition extract_buglink :: "string \<Rightarrow> string list \<Rightarrow> error + string" where
  "extract_buglink indicator description_lines =
     (if startswith indicator ''Ub''
      then (let buglink_lines = filter (\<lambda>x. startswith x ''BugLink:'') description_lines
            in if length buglink_lines > 0
               then (case py_index buglink_lines 0 of
                       Inl e \<Rightarrow> Inl e
                     | Inr line \<Rightarrow> py_index (py_split CHR '' '' line) 1)
               else Inr [])
      else Inr [])"

text \<open>The fields of the patch object that the message determines.\<close>

record parsed_message =
  subject :: string
  description :: string
  fixed_patches :: string
  buglink :: string

text \<open>The part of the loop body of \<open>parse_log\<close> that reads the commit message
  (lines 64 to 100). An exception raised here leaves \<open>parse_log\<close>.\<close>

definition parse_message :: "string \<Rightarrow> string \<Rightarrow> error + parsed_message" where
  "parse_message indicator message =
     (let split_message = split_message_of message
      in case py_index split_message 0 of
           Inl e \<Rightarrow> Inl e
         | Inr subj \<Rightarrow>
             (let description_lines = description_lines_of message;
                  descr = (if length split_message > 1 then py_join [CHR 0x0A] description_lines
                           else [])
              in case extract_fixed_patches indicator description_lines descr of
                   Inl e \<Rightarrow> Inl e
                 | Inr fixed \<Rightarrow>
                     (case extract_buglink indicator description_lines of
                        Inl e \<Rightarrow> Inl e
                      | Inr link \<Rightarrow>
                          Inr \<lparr>subject = subj, description = descr, fixed_patches = fixed,
                               buglink = link\<rparr>)))"

subsection \<open>The unchecked read of the bug link\<close>

lemma py_split_nonempty: "py_split sep s \<noteq> []"
  by (induction s) (auto split: list.splits)

lemma collect_fixed_patches_total: "\<exists>ws. collect_fixed_patches lines = Inr ws"
  by (induction lines) (auto simp: Let_def py_index_def)

lemma extract_fixed_patches_total: "\<exists>r. extract_fixed_patches indicator ls d = Inr r"
  using collect_fixed_patches_total [of "filter (\<lambda>x. startswith (py_lower (py_strip x)) ''fixes:'') ls"]
  by (auto simp: extract_fixed_patches_def)

lemma buglink_raises:
  assumes "startswith indicator ''Ub''"
    and "filter (\<lambda>x. startswith x ''BugLink:'') ls = l # rest"
    and "CHR '' '' \<notin> set l"
  shows "extract_buglink indicator ls = Inl IndexError"
  using assms by (simp add: extract_buglink_def py_index_def py_split_no_sep)

lemma parse_upstream_total: "\<exists>r. parse_message ''Upstream'' message = Inr r"
proof -
  let ?ls = "description_lines_of message"
  let ?d = "if length (split_message_of message) > 1 then py_join [CHR 0x0A] ?ls else []"
  have "split_message_of message \<noteq> []"
    by (simp add: split_message_of_def py_split_nonempty)
  then obtain s where s: "py_index (split_message_of message) 0 = Inr s"
    by (simp add: py_index_def)
  obtain f where f: "extract_fixed_patches ''Upstream'' ?ls ?d = Inr f"
    using extract_fixed_patches_total by blast
  have b: "extract_buglink ''Upstream'' ?ls = Inr []"
    by (simp add: extract_buglink_def)
  show ?thesis
    unfolding parse_message_def Let_def s f b by simp
qed

lemma parse_buglink_raises:
  assumes "startswith indicator ''Ub''"
    and "filter (\<lambda>x. startswith x ''BugLink:'') (description_lines_of message) = l # rest"
    and "CHR '' '' \<notin> set l"
  shows "parse_message indicator message = Inl IndexError"
proof -
  have "split_message_of message \<noteq> []"
    by (simp add: split_message_of_def py_split_nonempty)
  then obtain s where s: "py_index (split_message_of message) 0 = Inr s"
    by (simp add: py_index_def)
  from assms(1) have "indicator \<noteq> ''Upstream''"
    by auto
  then have f: "extract_fixed_patches indicator ls d = Inr []" for ls d
    by (simp add: extract_fixed_patches_def)
  show ?thesis
    using s f buglink_raises [OF assms]
    by (simp add: parse_message_def Let_def)
qed

text \<open>
  Claim C10. For an indicator that starts with \<open>Ub\<close> and a commit message whose first
  kept description line starting with \<open>BugLink:\<close> has no space, reading the message
  raises IndexError; such a message exists. The extraction of \<open>fixes:\<close> references
  never raises, and reading the message of an upstream commit always returns.
\<close>

theorem buglink_without_space_raises:
  "(startswith indicator ''Ub''
      \<and> filter (\<lambda>x. startswith x ''BugLink:'') (description_lines_of message) = l # rest
      \<and> CHR '' '' \<notin> set l
    \<longrightarrow> parse_message indicator message = Inl IndexError)
   \<and> parse_message ''Ubuntu''
        ''fix bug\<newline>\<newline>BugLink:https://bugs.launchpad.net/bugs/1\<newline>Signed-off-by: A''
      = Inl IndexError
   \<and> (\<exists>ws. collect_fixed_patches lines = Inr ws)
   \<and> (\<exists>r. parse_message ''Upstream'' upstream_message = Inr r)"
proof (intro conjI impI)
  assume "startswith indicator ''Ub''
      \<and> filter (\<lambda>x. startswith x ''BugLink:'') (description_lines_of message) = l # rest
      \<and> CHR '' '' \<notin> set l"
  then show "parse_message indicator message = Inl IndexError"
    by (intro parse_buglink_raises [of indicator message l rest]) simp_all
next
  have "filter (\<lambda>x. startswith x ''BugLink:'')
          (description_lines_of
             ''fix bug\<newline>\<newline>BugLink:https://bugs.launchpad.net/bugs/1\<newline>Signed-off-by: A'')
        = [''BugLink:https://bugs.launchpad.net/bugs/1'']"
    by (simp add: description_lines_of_def split_message_of_def py_strip_def is_space_def
        should_keep_line_def py_lower_def py_lower_char_def ignore_phrases_def)
  moreover have "CHR '' '' \<notin> set ''BugLink:https://bugs.launchpad.net/bugs/1''"
    by simp
  moreover have "startswith ''Ubuntu'' ''Ub''"
    by simp
  ultimately show "parse_message ''Ubuntu''
        ''fix bug\<newline>\<newline>BugLink:https://bugs.launchpad.net/bugs/1\<newline>Signed-off-by: A''
      = Inl IndexError"
    by (rule parse_buglink_raises [rotated 1])
next
  show "\<exists>ws. collect_fixed_patches lines = Inr ws"
    by (rule collect_fixed_patches_total)
next
  show "\<exists>r. parse_message ''Upstream'' upstream_message = Inr r"
    by (rule parse_upstream_total)
qed

theorem buglink_without_space_raises_witness:
  "description_lines_of ''fix\<newline>BugLink:'' = [''BugLink:'']
   \<and> parse_message ''Ubuntu-Azure'' ''fix\<newline>BugLink:'' = Inl IndexError
   \<and> parse_message ''Upstream'' ''fix\<newline>Fixes:\<newline>Fixes: abc123 (x)''
       = Inr \<lparr>subject = ''fix'', description = ''Fixes:\<newline>Fixes: abc123 (x)'',
              fixed_patches = ''abc123'', buglink = []\<rparr>"
proof -
  have d: "description_lines_of ''fix\<newline>BugLink:'' = [''BugLink:'']"
    by (simp add: description_lines_of_def split_message_of_def py_strip_def is_space_def
        should_keep_line_def py_lower_def py_lower_char_def ignore_phrases_def)
  have u: "startswith ''Ubuntu-Azure'' ''Ub''"
    by simp
  have f: "filter (\<lambda>x. startswith x ''BugLink:'') (description_lines_of ''fix\<newline>BugLink:'')
             = ''BugLink:'' # []"
    unfolding d by simp
  have n: "CHR '' '' \<notin> set ''BugLink:''"
    by simp
  have r: "parse_message ''Ubuntu-Azure'' ''fix\<newline>BugLink:'' = Inl IndexError"
    using buglink_without_space_raises
      [of "''Ubuntu-Azure''" "''fix\<newline>BugLink:''" "''BugLink:''" "[]"] u f n
    by blast
  have p: "parse_message ''Upstream'' ''fix\<newline>Fixes:\<newline>Fixes: abc123 (x)''
       = Inr \<lparr>subject = ''fix'', description = ''Fixes:\<newline>Fixes: abc123 (x)'',
              fixed_patches = ''abc123'', buglink = []\<rparr>"
    by (simp add: parse_message_def description_lines_of_def split_message_of_def py_strip_def
        is_space_def should_keep_line_def py_lower_def py_lower_char_def ignore_phrases_def
        py_index_def extract_fixed_patches_def extract_buglink_def)
  show ?thesis
    by (intro conjI d r p)
qed

end
